theory Spec2Isabelle
  imports Main "HOL-Library.Word"
begin

section \<open>Data model of package oauth2\<close>

text \<open>
  Go's \<^verbatim>\<open>url.Values\<close> is a \<^verbatim>\<open>map[string][]string\<close>. A map value that may be
  \<^verbatim>\<open>nil\<close> is an option of a map: reading a nil map gives the zero value, writing to it
  panics.
\<close>

type_synonym Values = "string \<rightharpoonup> string list"

definition Values_Get :: "Values \<Rightarrow> string \<Rightarrow> string" where
  \<comment> \<open>\<^verbatim>\<open>Values.Get\<close>: the first value of the key, or the empty string.\<close>
  "Values_Get v key = (case v key of None \<Rightarrow> [] | Some [] \<Rightarrow> [] | Some (x # _) \<Rightarrow> x)"

definition Values_Set :: "Values \<Rightarrow> string \<Rightarrow> string \<Rightarrow> Values" where
  \<comment> \<open>\<^verbatim>\<open>Values.Set\<close>: the key now holds exactly this value.\<close>
  "Values_Set v key val = v(key \<mapsto> [val])"

definition Values_Encode :: "Values \<Rightarrow> Values" where
  \<comment> \<open>\<^verbatim>\<open>Values.Encode\<close>, read back through \<^verbatim>\<open>URL.Query\<close>: a query string is kept
      in its decoded form; a key with no value is not written.\<close>
  "Values_Encode v = (\<lambda>key. case v key of Some [] \<Rightarrow> None | x \<Rightarrow> x)"

text \<open>
  \<^verbatim>\<open>url.URL\<close>. The field \<open>RawQuery\<close> holds the query in decoded form, that is the
  \<^verbatim>\<open>Values\<close> which \<^verbatim>\<open>URL.Query()\<close> returns for it.
\<close>

record URL =
  Scheme :: string
  Host :: string
  Path :: string
  RawQuery :: Values

definition URL_Query :: "URL \<Rightarrow> Values" where
  "URL_Query u = RawQuery u"

text \<open>
  A value held in an \<^verbatim>\<open>interface{}\<close> of the claim map, as JSON decoding produces it.
  The code itself only asks whether a value is a string.
\<close>

datatype any =
    AString string
  | ANumber int
  | ABool bool
  | ANil
  | AList "any list"
  | AMap "(string \<times> any) list"

datatype key = KeyMaterial string

datatype x509_Certificate = X509 string

record Request =
  Method :: string
  URL :: "URL option"
  Headers :: "(string \<rightharpoonup> string list) option"
  Form :: "Values option"
  JARM :: "(string \<rightharpoonup> any) option"
  Key :: "key option"
  Cert :: "x509_Certificate option"

definition zero_Request :: Request where
  \<comment> \<open>The zero value of the struct: every pointer and map is nil.\<close>
  "zero_Request = \<lparr>Method = [], URL = None, Headers = None, Form = None, JARM = None,
     Key = None, Cert = None\<rparr>"

text \<open>
  \<^verbatim>\<open>Error\<close> is declared outside the files at hand; its four fields are the ones the
  callback handler fills.
\<close>

record Error =
  ErrorCode :: string
  Description :: string
  Hint :: string
  TraceID :: string

text \<open>
  Go \<^verbatim>\<open>error\<close> values. \<open>External\<close> is an error a library hands back (net/url, net/http,
  io, encoding/json, go-jose), \<open>New\<close> is \<^verbatim>\<open>errors.New\<close>, \<open>Wrapped\<close> is
  \<^verbatim>\<open>errors.Wrapf\<close> or \<^verbatim>\<open>fmt.Errorf\<close> with \<^verbatim>\<open>%w\<close>, \<open>Multi\<close> is
  \<^verbatim>\<open>multierror.Append\<close>, \<open>Provider\<close> is a \<^verbatim>\<open>*Error\<close>.
\<close>

datatype error =
    External string
  | New string
  | Wrapped string error
  | Multi "error list"
  | Provider Error

datatype panic =
    NilPointerDereference
  | AssignmentToNilMap
  | IndexOutOfRange
  | MultipleRegistrations string

text \<open>How a call ends: it panics or it returns a value.\<close>

datatype 'a outcome = Panicked panic | Returned 'a

section \<open>Request.Get\<close>

definition string_claim :: "Request \<Rightarrow> string \<Rightarrow> string option" where
  \<comment> \<open>\<^verbatim>\<open>v, ok := r.JARM[key].(string)\<close>: a nil map and a value that is not a string
      both give \<^verbatim>\<open>ok = false\<close>.\<close>
  "string_claim r k =
     (case JARM r of
        None \<Rightarrow> None
      | Some m \<Rightarrow> (case m k of Some (AString v) \<Rightarrow> Some v | _ \<Rightarrow> None))"

definition Form_Get :: "Request \<Rightarrow> string \<Rightarrow> string" where
  \<comment> \<open>\<^verbatim>\<open>r.Form.Get(key)\<close>; reading a nil map is allowed.\<close>
  "Form_Get r k = (case Form r of None \<Rightarrow> [] | Some f \<Rightarrow> Values_Get f k)"

definition Get :: "Request \<Rightarrow> string \<Rightarrow> string outcome" where
  "Get r k =
     (case string_claim r k of
        Some v \<Rightarrow> Returned v
      | None \<Rightarrow>
          (case URL r of
             None \<Rightarrow> Panicked NilPointerDereference
           | Some u \<Rightarrow>
               if Values_Get (URL_Query u) k \<noteq> [] then Returned (Values_Get (URL_Query u) k)
               else Returned (Form_Get r k)))"

section \<open>Request.ParseJARM\<close>

datatype JSONWebToken = JWT string

datatype NestedJSONWebToken = NestedJWT string

text \<open>
  The four go-jose calls of \<^verbatim>\<open>ParseJARM\<close>, as parameters. A failing call gives the
  message of its error. \<open>Claims\<close> gives the entries it decoded into the destination map
  together with its error, if any.
\<close>

record jose =
  ParseSignedAndEncrypted :: "string \<Rightarrow> string + NestedJSONWebToken"
  ParseSigned :: "string \<Rightarrow> string + JSONWebToken"
  Decrypt :: "NestedJSONWebToken \<Rightarrow> key \<Rightarrow> string + JSONWebToken"
  Claims :: "JSONWebToken \<Rightarrow> key \<Rightarrow> (string \<rightharpoonup> any) \<times> string option"

definition verify_claims ::
  "jose \<Rightarrow> key option \<Rightarrow> JSONWebToken \<Rightarrow> Request \<Rightarrow> Request \<times> error option outcome" where
  \<comment> \<open>Lines 110 to 119: the signing key check and \<^verbatim>\<open>token.Claims(signingKey, &r.JARM)\<close>;
      \<open>r\<close> comes with its claim map already reset.\<close>
  "verify_claims J signingKey token r =
     (case signingKey of
        None \<Rightarrow> (r, Returned (Some (New ''no signing key path'')))
      | Some sk \<Rightarrow>
          (case Claims J token sk of
             (written, Some err) \<Rightarrow> (r\<lparr>JARM := Some written\<rparr>, Returned (Some (External err)))
           | (written, None) \<Rightarrow> (r\<lparr>JARM := Some written\<rparr>, Returned None)))"

definition ParseJARM ::
  "jose \<Rightarrow> key option \<Rightarrow> key option \<Rightarrow> Request \<Rightarrow> Request \<times> error option outcome" where
  "ParseJARM J signingKey encryptionKey r =
     (case Get r ''response'' of
        Panicked p \<Rightarrow> (r, Panicked p)
      | Returned response \<Rightarrow>
          (let r0 = r\<lparr>JARM := Some Map.empty\<rparr> in
           if response \<noteq> [] then
             (case ParseSignedAndEncrypted J response of
                Inl err \<Rightarrow>
                  (case ParseSigned J response of
                     Inl err2 \<Rightarrow>
                       (r0, Returned (Some (Wrapped ''failed to parse JARM response''
                                              (Multi [External err, External err2]))))
                   | Inr token \<Rightarrow> verify_claims J signingKey token r0)
              | Inr nestedToken \<Rightarrow>
                  (case encryptionKey of
                     Some ek \<Rightarrow>
                       (case Decrypt J nestedToken ek of
                          Inl err \<Rightarrow>
                            (r0, Returned (Some (Wrapped ''failed to decrypt encrypted JARM response''
                                                   (External err))))
                        | Inr token \<Rightarrow> verify_claims J signingKey token r0)
                   | None \<Rightarrow> (r0, Returned (Some (New ''no encryption key path'')))))
           else (r0, Returned None)))"

section \<open>Configuration\<close>

definition AuthorizationCodeGrantType :: string where
  "AuthorizationCodeGrantType = ''authorization_code''"

definition ClientCredentialsGrantType :: string where
  "ClientCredentialsGrantType = ''client_credentials''"

definition ClientSecretBasicAuthMethod :: string where
  "ClientSecretBasicAuthMethod = ''client_secret_basic''"

definition ClientSecretPostAuthMethod :: string where
  "ClientSecretPostAuthMethod = ''client_secret_post''"

text \<open>
  Modelled from the spec: the constants \<^verbatim>\<open>ClientSecretJwtAuthMethod\<close>,
  \<^verbatim>\<open>PrivateKeyJwtAuthMethod\<close>, \<^verbatim>\<open>SelfSignedTLSAuthMethod\<close>, \<^verbatim>\<open>TLSClientAuthMethod\<close>
  and \<^verbatim>\<open>JwtBearerClientAssertion\<close>, which \<^verbatim>\<open>AuthenticateClient\<close> switches on, have no
  declaration in the files at hand (the first four stand there in a comment). Their values
  are the method names of the table of client authentication methods and the JWT-bearer
  assertion URN.
\<close>

definition ClientSecretJwtAuthMethod :: string where
  "ClientSecretJwtAuthMethod = ''client_secret_jwt''"

definition PrivateKeyJwtAuthMethod :: string where
  "PrivateKeyJwtAuthMethod = ''private_key_jwt''"

definition SelfSignedTLSAuthMethod :: string where
  "SelfSignedTLSAuthMethod = ''self_signed_tls_client_auth''"

definition TLSClientAuthMethod :: string where
  "TLSClientAuthMethod = ''tls_client_auth''"

definition JwtBearerClientAssertion :: string where
  "JwtBearerClientAssertion = ''urn:ietf:params:oauth:client-assertion-type:jwt-bearer''"

record ClientConfig =
  IssuerURL :: string
  ClientID :: string
  ClientSecret :: string
  GrantType :: string
  AuthMethod :: string

text \<open>
  \<^verbatim>\<open>ServerConfig\<close> is declared outside the files at hand; the two fields here are the
  ones the code reads.
\<close>

record ServerConfig =
  AuthorizationEndpoint :: string
  TokenEndpoint :: string

section \<open>Request.AuthenticateClient\<close>

text \<open>
  The HTTP client is a constructed value (never nil). Its transport is an interface: nil,
  a \<^verbatim>\<open>*http.Transport\<close> (whose TLS configuration may be missing) or some other round
  tripper.
\<close>

record tls_Certificate =
  Certificate :: "string list"

record tls_Config =
  Certificates :: "tls_Certificate list"

datatype RoundTripper =
    NoRoundTripper
  | HttpTransport "tls_Config option"
  | OtherRoundTripper

record http_Client =
  Transport :: RoundTripper

text \<open>
  \<^verbatim>\<open>ClientAssertionClaims\<close>, \<^verbatim>\<open>SecretSigner\<close> and \<^verbatim>\<open>JWKSigner\<close> only build the
  arguments of \<^verbatim>\<open>SignJWT\<close>; they are kept as data. \<^verbatim>\<open>SignJWT\<close> itself and
  \<^verbatim>\<open>x509.ParseCertificate\<close> are parameters: the first gives the assertion, the key and
  the error of the three-valued assignment, the second a certificate or nil.
\<close>

datatype assertion_claims = ClientAssertionClaims ServerConfig ClientConfig

datatype signer = SecretSigner string | JWKSigner ClientConfig http_Client

type_synonym SignJWT = "assertion_claims \<Rightarrow> signer \<Rightarrow> string \<times> key option \<times> error option"

type_synonym ParseCertificate = "string \<Rightarrow> x509_Certificate option"

definition assert_client ::
  "SignJWT \<Rightarrow> signer \<Rightarrow> string \<Rightarrow> ClientConfig \<Rightarrow> ServerConfig \<Rightarrow> Request
     \<Rightarrow> Request \<times> (string \<times> error option) outcome" where
  \<comment> \<open>The body shared by the two JWT cases, which differ in the signer only.\<close>
  "assert_client sign sg endpoint cconfig sconfig r =
     (case sign (ClientAssertionClaims sconfig cconfig) sg of
        (clientAssertion, k, err) \<Rightarrow>
          (let r1 = r\<lparr>Key := k\<rparr> in
           case err of
             Some e \<Rightarrow> (r1, Returned (endpoint, Some e))
           | None \<Rightarrow>
               (case Form r1 of
                  None \<Rightarrow> (r1, Panicked AssignmentToNilMap)
                | Some f \<Rightarrow>
                    (r1\<lparr>Form := Some (Values_Set
                         (Values_Set f ''client_assertion_type'' JwtBearerClientAssertion)
                         ''client_assertion'' clientAssertion)\<rparr>,
                     Returned (endpoint, None)))))"

definition tls_client ::
  "ParseCertificate \<Rightarrow> string \<Rightarrow> ClientConfig \<Rightarrow> http_Client \<Rightarrow> Request
     \<Rightarrow> Request \<times> (string \<times> error option) outcome" where
  \<comment> \<open>The case of the two TLS methods.\<close>
  "tls_client parse mtlsEndpoint cconfig hc r =
     (case Form r of
        None \<Rightarrow> (r, Panicked AssignmentToNilMap)
      | Some f \<Rightarrow>
          (let r1 = r\<lparr>Form := Some (Values_Set f ''client_id'' (ClientID cconfig))\<rparr> in
           case Transport hc of
             HttpTransport cfg \<Rightarrow>
               (case cfg of
                  None \<Rightarrow> (r1, Panicked NilPointerDereference)
                | Some c \<Rightarrow>
                    (case Certificates c of
                       [] \<Rightarrow> (r1, Returned (mtlsEndpoint, None))
                     | crt # _ \<Rightarrow>
                         (case Certificate crt of
                            [] \<Rightarrow> (r1, Panicked IndexOutOfRange)
                          | der # _ \<Rightarrow>
                              (r1\<lparr>Cert := parse der\<rparr>, Returned (mtlsEndpoint, None)))))
           | _ \<Rightarrow> (r1, Returned (mtlsEndpoint, None))))"

definition AuthenticateClient ::
  "SignJWT \<Rightarrow> ParseCertificate \<Rightarrow> string \<Rightarrow> string \<Rightarrow> ClientConfig \<Rightarrow> ServerConfig
     \<Rightarrow> http_Client \<Rightarrow> Request \<Rightarrow> Request \<times> (string \<times> error option) outcome" where
  "AuthenticateClient sign parse endpoint mtlsEndpoint cconfig sconfig hc r =
     (if AuthMethod cconfig = ClientSecretPostAuthMethod then
        (case Form r of
           None \<Rightarrow> (r, Panicked AssignmentToNilMap)
         | Some f \<Rightarrow>
             (r\<lparr>Form := Some (Values_Set (Values_Set f ''client_id'' (ClientID cconfig))
                                 ''client_secret'' (ClientSecret cconfig))\<rparr>,
              Returned (endpoint, None)))
      else if AuthMethod cconfig = ClientSecretJwtAuthMethod then
        assert_client sign (SecretSigner (ClientSecret cconfig)) endpoint cconfig sconfig r
      else if AuthMethod cconfig = PrivateKeyJwtAuthMethod then
        assert_client sign (JWKSigner cconfig hc) endpoint cconfig sconfig r
      else if AuthMethod cconfig = TLSClientAuthMethod
            \<or> AuthMethod cconfig = SelfSignedTLSAuthMethod then
        tls_client parse mtlsEndpoint cconfig hc r
      else (r, Returned (endpoint, None)))"

text \<open>
  What the authenticator may touch: two Requests are the same but for the authentication
  when they agree on the method, the URL, the headers, the claim map and every form field
  other than the four that carry client credentials.
\<close>

abbreviation same_but_auth :: "Request \<Rightarrow> Request \<Rightarrow> bool" where
  "same_but_auth r' r \<equiv>
     Method r' = Method r \<and> URL r' = URL r \<and> Headers r' = Headers r \<and> JARM r' = JARM r
     \<and> (\<forall>key. key \<notin> {''client_id'', ''client_secret'', ''client_assertion_type'',
                         ''client_assertion''} \<longrightarrow>
            map_option (\<lambda>form. form key) (Form r') = map_option (\<lambda>form. form key) (Form r))"

section \<open>RequestAuthorization\<close>

text \<open>
  \<^verbatim>\<open>shortuuid.New()\<close> draws from a generator. The generator is the sequence \<open>gen\<close> of
  the identifiers it hands out, call after call; the state is the number of calls so far.
\<close>

definition shortuuid_New :: "(nat \<Rightarrow> string) \<Rightarrow> nat \<Rightarrow> string \<times> nat" where
  "shortuuid_New gen n = (gen n, Suc n)"

definition RequestAuthorization ::
  "(string \<Rightarrow> string + URL) \<Rightarrow> (nat \<Rightarrow> string) \<Rightarrow> string \<Rightarrow> ClientConfig \<Rightarrow> ServerConfig
     \<Rightarrow> nat \<Rightarrow> (Request \<times> error option) \<times> nat" where
  \<comment> \<open>\<open>parse_url\<close> is \<^verbatim>\<open>url.Parse\<close>.\<close>
  "RequestAuthorization parse_url gen addr cconfig sconfig n =
     (case parse_url (AuthorizationEndpoint sconfig) of
        Inl e \<Rightarrow>
          ((zero_Request,
            Some (Wrapped ''failed to parse authorization endpoint'' (External e))), n)
      | Inr u \<Rightarrow>
          (case shortuuid_New gen n of
             (state, n1) \<Rightarrow>
               (case shortuuid_New gen n1 of
                  (nonce, n2) \<Rightarrow>
                    (let values = [''client_id'' \<mapsto> [ClientID cconfig],
                                   ''response_type'' \<mapsto> [''code''],
                                   ''redirect_uri'' \<mapsto> [''http://'' @ addr @ ''/callback''],
                                   ''state'' \<mapsto> [state],
                                   ''nonce'' \<mapsto> [nonce]]
                     in ((zero_Request\<lparr>URL := Some (u\<lparr>RawQuery := Values_Encode values\<rparr>),
                                        Method := ''GET''\<rparr>, None), n2)))))"

section \<open>WaitForCallback\<close>

text \<open>
  An \<^verbatim>\<open>http.Request\<close>, inbound or outbound. The body of a form-encoded request is kept
  as the form it encodes.
\<close>

record http_Request =
  http_Method :: string
  http_URL :: URL
  http_Header :: "string \<rightharpoonup> string list"
  http_Body :: Values

text \<open>What a handler wrote to its \<^verbatim>\<open>http.ResponseWriter\<close>.\<close>

record http_Reply =
  Status :: nat
  Written :: string

text \<open>
  \<^verbatim>\<open>http.HandleFunc\<close> registers in \<^verbatim>\<open>http.DefaultServeMux\<close>, a variable of package
  net/http shared by the whole process; a server whose \<^verbatim>\<open>Handler\<close> is nil, as
  \<^verbatim>\<open>http.Server{Addr: addr}\<close> is, serves from it. The table maps a pattern to its handler;
  the handler of an invocation is named by the address of the server it closes over.
  Registering a pattern twice panics.
\<close>

type_synonym ServeMux = "string \<rightharpoonup> string"

text \<open>
  What \<^verbatim>\<open>srv.ListenAndServe()\<close> meets on an address: it fails to listen, or it serves
  the requests that arrive until \<^verbatim>\<open>Shutdown\<close> closes it.
\<close>

datatype serving = ListenFailed string | Serves "http_Request list"

definition callback ::
  "http_Request \<Rightarrow> Request \<times> error option \<Rightarrow> (Request \<times> error option) \<times> http_Reply" where
  \<comment> \<open>The handler of lines 77 to 97, on the captured variables \<^verbatim>\<open>request\<close> and \<^verbatim>\<open>err\<close>.\<close>
  "callback q s =
     (case s of
        (request, err) \<Rightarrow>
          (let request1 = request\<lparr>Method := http_Method q, URL := Some (http_URL q)\<rparr> in
           if Values_Get (URL_Query (http_URL q)) ''error'' \<noteq> [] then
             ((request1,
               Some (Provider
                 \<lparr>ErrorCode = Values_Get (URL_Query (http_URL q)) ''error'',
                  Description = Values_Get (URL_Query (http_URL q)) ''error_description'',
                  Hint = Values_Get (URL_Query (http_URL q)) ''error_hint'',
                  TraceID = Values_Get (URL_Query (http_URL q)) ''trace_id''\<rparr>)),
              \<lparr>Status = 400, Written = ''Authorization failed. You may close this browser.''\<rparr>)
           else
             ((request1, err),
              \<lparr>Status = 200,
               Written = ''Authorization succeeded. You may close this browser.''\<rparr>)))"

fun serve ::
  "http_Request list \<Rightarrow> Request \<times> error option
     \<Rightarrow> (Request \<times> error option) \<times> http_Reply list" where
  \<comment> \<open>The server routes a request for the path \<^verbatim>\<open>/callback\<close> to the handler and
      answers any other with 404.\<close>
  "serve [] s = (s, [])"
| "serve (q # qs) s =
     (if Path (http_URL q) = ''/callback'' then
        (case callback q s of
           (s1, w) \<Rightarrow> (case serve qs s1 of (s2, ws) \<Rightarrow> (s2, w # ws)))
      else
        (case serve qs s of
           (s2, ws) \<Rightarrow> (s2, \<lparr>Status = 404, Written = ''404 page not found''\<rparr> # ws)))"

definition WaitForCallback ::
  "(string \<Rightarrow> serving) \<Rightarrow> string \<Rightarrow> ServeMux
     \<Rightarrow> ServeMux \<times> ((Request \<times> error option) \<times> http_Reply list) outcome option" where
  \<comment> \<open>\<open>net\<close> is what the network does to a server on each address. The handler schedules
      the shutdown, so the call ends once a request for \<^verbatim>\<open>/callback\<close> has arrived; when
      none does, \<^verbatim>\<open>wg.Wait()\<close> waits for ever and the result is \<open>None\<close>.\<close>
  "WaitForCallback net addr mux =
     (case mux ''/callback'' of
        Some _ \<Rightarrow> (mux, Some (Panicked (MultipleRegistrations ''/callback'')))
      | None \<Rightarrow>
          (let mux1 = mux(''/callback'' \<mapsto> addr) in
           case net addr of
             ListenFailed serr \<Rightarrow>
               (mux1, Some (Returned ((zero_Request, Some (External serr)), [])))
           | Serves qs \<Rightarrow>
               if filter (\<lambda>q. Path (http_URL q) = ''/callback'') qs \<noteq> [] then
                 (mux1, Some (Returned (serve qs (zero_Request, None))))
               else (mux1, None)))"

text \<open>
  Names for what the handler reads off one request: whether the server routes it to the
  handler, whether its \<^verbatim>\<open>error\<close> parameter is not empty, the \<^verbatim>\<open>Error\<close> the handler
  builds from it, and the answer it gets.
\<close>

abbreviation for_callback :: "http_Request \<Rightarrow> bool" where
  "for_callback q \<equiv> Path (http_URL q) = ''/callback''"

abbreviation carries_error :: "http_Request \<Rightarrow> bool" where
  "carries_error q \<equiv> Values_Get (URL_Query (http_URL q)) ''error'' \<noteq> []"

abbreviation callback_Error :: "http_Request \<Rightarrow> Error" where
  "callback_Error q \<equiv>
     \<lparr>ErrorCode = Values_Get (URL_Query (http_URL q)) ''error'',
      Description = Values_Get (URL_Query (http_URL q)) ''error_description'',
      Hint = Values_Get (URL_Query (http_URL q)) ''error_hint'',
      TraceID = Values_Get (URL_Query (http_URL q)) ''trace_id''\<rparr>"

abbreviation callback_reply :: "http_Request \<Rightarrow> http_Reply" where
  "callback_reply q \<equiv>
     (if for_callback q then
        (if carries_error q then
           \<lparr>Status = 400, Written = ''Authorization failed. You may close this browser.''\<rparr>
         else
           \<lparr>Status = 200, Written = ''Authorization succeeded. You may close this browser.''\<rparr>)
      else \<lparr>Status = 404, Written = ''404 page not found''\<rparr>)"

section \<open>RequestToken\<close>

record TokenResponse =
  AccessToken :: string
  ExpiresIn :: "64 word"
  IDToken :: string
  IssuedTokenType :: string
  RefreshToken :: string
  Scope :: string
  TokenType :: string

definition zero_TokenResponse :: TokenResponse where
  "zero_TokenResponse = \<lparr>AccessToken = [], ExpiresIn = 0, IDToken = [], IssuedTokenType = [],
     RefreshToken = [], Scope = [], TokenType = []\<rparr>"

record RequestTokenParams =
  Code :: string
  RedirectURL :: string

text \<open>
  A \<^verbatim>\<open>RequestTokenOption\<close> is a function that updates the parameters in place; the
  options are applied in the order they are given.
\<close>

type_synonym RequestTokenOption = "RequestTokenParams \<Rightarrow> RequestTokenParams"

definition WithAuthorizationCode :: "string \<Rightarrow> RequestTokenOption" where
  "WithAuthorizationCode code = (\<lambda>opts. opts\<lparr>Code := code\<rparr>)"

definition WithRedirectURL :: "string \<Rightarrow> RequestTokenOption" where
  "WithRedirectURL url = (\<lambda>opts. opts\<lparr>RedirectURL := url\<rparr>)"

definition apply_options :: "RequestTokenOption list \<Rightarrow> RequestTokenParams" where
  \<comment> \<open>Lines 155 to 157, on the zero value of the parameters.\<close>
  "apply_options opts = foldl (\<lambda>params opt. opt params) \<lparr>Code = [], RedirectURL = []\<rparr> opts"

record http_Response =
  StatusCode :: nat
  Body :: "string + string"

text \<open>
  The library calls of \<^verbatim>\<open>RequestToken\<close>, as parameters: \<^verbatim>\<open>url.Parse\<close> inside
  \<^verbatim>\<open>http.NewRequestWithContext\<close>, the base64 encoding inside \<^verbatim>\<open>SetBasicAuth\<close>,
  \<^verbatim>\<open>hc.Do\<close> (a cancelled context is one of its errors), and \<^verbatim>\<open>json.Unmarshal\<close> into
  a \<^verbatim>\<open>TokenResponse\<close> and into an \<^verbatim>\<open>Error\<close>, which gives what it decoded together
  with its error, if any. The body of a response is the bytes \<^verbatim>\<open>io.ReadAll\<close> reads, or
  its error.
\<close>

record world =
  url_Parse :: "string \<Rightarrow> string + URL"
  base64 :: "string \<Rightarrow> string"
  Do :: "http_Request \<Rightarrow> string + http_Response"
  Unmarshal_TokenResponse :: "string \<Rightarrow> TokenResponse \<times> string option"
  Unmarshal_Error :: "string \<Rightarrow> Error \<times> string option"

text \<open>
  Modelled from the spec: \<^verbatim>\<open>ParseError\<close>, which \<^verbatim>\<open>RequestToken\<close> calls on a response
  whose status is not 200, is not among the files at hand. The response is parsed as a
  provider \<^verbatim>\<open>Error\<close> (code, description, hint, trace id); a body that cannot be read or
  decoded gives a decode error that includes the underlying failure.
\<close>

definition ParseError :: "world \<Rightarrow> http_Response \<Rightarrow> error" where
  "ParseError W resp =
     (case Body resp of
        Inl e \<Rightarrow> Wrapped ''failed to read error response body'' (External e)
      | Inr bs \<Rightarrow>
          (case Unmarshal_Error W bs of
             (oerr, None) \<Rightarrow> Provider oerr
           | (oerr, Some e) \<Rightarrow> Wrapped ''failed to parse error response'' (External e)))"

definition token_Form :: "ClientConfig \<Rightarrow> RequestTokenParams \<Rightarrow> Values" where
  \<comment> \<open>Lines 159 to 175.\<close>
  "token_Form cconfig params =
     (let f0 = [''grant_type'' \<mapsto> [GrantType cconfig]];
          f1 = (if AuthMethod cconfig = ClientSecretPostAuthMethod then
                  Values_Set (Values_Set f0 ''client_id'' (ClientID cconfig))
                    ''client_secret'' (ClientSecret cconfig)
                else f0);
          f2 = (if RedirectURL params \<noteq> [] then Values_Set f1 ''redirect_uri'' (RedirectURL params)
                else f1)
      in if Code params \<noteq> [] then Values_Set f2 ''code'' (Code params) else f2)"

definition SetBasicAuth :: "world \<Rightarrow> string \<Rightarrow> string \<Rightarrow> http_Request \<Rightarrow> http_Request" where
  "SetBasicAuth W username password req =
     req\<lparr>http_Header := (http_Header req)(''Authorization'' \<mapsto>
            [''Basic '' @ base64 W (username @ '':'' @ password)])\<rparr>"

definition Header_Add :: "string \<Rightarrow> string \<Rightarrow> http_Request \<Rightarrow> http_Request" where
  "Header_Add k v req =
     req\<lparr>http_Header := (http_Header req)(k \<mapsto>
            (case http_Header req k of None \<Rightarrow> [v] | Some vs \<Rightarrow> vs @ [v]))\<rparr>"

definition NewRequest :: "world \<Rightarrow> string \<Rightarrow> string \<Rightarrow> Values \<Rightarrow> string + http_Request" where
  \<comment> \<open>\<^verbatim>\<open>http.NewRequestWithContext\<close>: it fails when the URL does not parse.\<close>
  "NewRequest W method url body =
     (case url_Parse W url of
        Inl e \<Rightarrow> Inl e
      | Inr u \<Rightarrow> Inr \<lparr>http_Method = method, http_URL = u, http_Header = Map.empty,
                     http_Body = Values_Encode body\<rparr>)"

definition token_request ::
  "world \<Rightarrow> ClientConfig \<Rightarrow> ServerConfig \<Rightarrow> Values \<Rightarrow> string + http_Request" where
  \<comment> \<open>Lines 177 to 190: the transport request that is handed to \<^verbatim>\<open>hc.Do\<close>.\<close>
  "token_request W cconfig sconfig form =
     (case NewRequest W ''POST'' (TokenEndpoint sconfig) form of
        Inl e \<Rightarrow> Inl e
      | Inr req \<Rightarrow>
          Inr (Header_Add ''Content-Type'' ''application/x-www-form-urlencoded''
                 (if AuthMethod cconfig = ClientSecretBasicAuthMethod then
                    SetBasicAuth W (ClientID cconfig) (ClientSecret cconfig) req
                  else req)))"

definition RequestToken ::
  "world \<Rightarrow> ClientConfig \<Rightarrow> ServerConfig \<Rightarrow> RequestTokenOption list
     \<Rightarrow> Request \<times> TokenResponse \<times> error option" where
  "RequestToken W cconfig sconfig opts =
     (let params = apply_options opts;
          request = zero_Request\<lparr>Form := Some (token_Form cconfig params)\<rparr>
      in case token_request W cconfig sconfig (token_Form cconfig params) of
           Inl e \<Rightarrow> (request, zero_TokenResponse, Some (External e))
         | Inr req \<Rightarrow>
             (let request1 = request\<lparr>Method := http_Method req,
                                      Headers := Some (http_Header req),
                                      URL := Some (http_URL req)\<rparr>
              in case Do W req of
                   Inl e \<Rightarrow> (request1, zero_TokenResponse, Some (External e))
                 | Inr resp \<Rightarrow>
                     if StatusCode resp \<noteq> 200 then
                       (request1, zero_TokenResponse, Some (ParseError W resp))
                     else
                       (case Body resp of
                          Inl e \<Rightarrow>
                            (request1, zero_TokenResponse,
                             Some (Wrapped ''failed to read exchange response body'' (External e)))
                        | Inr body \<Rightarrow>
                            (case Unmarshal_TokenResponse W body of
                               (response, Some e) \<Rightarrow>
                                 (request1, response,
                                  Some (Wrapped ''failed to parse exchange response'' (External e)))
                             | (response, None) \<Rightarrow> (request1, response, None)))))"

section \<open>Example values\<close>

text \<open>
  Concrete stand-ins for the library calls and for the values of one authorization flow;
  the theorems below are evaluated on them.
\<close>

definition example_jose :: jose where
  "example_jose =
     \<lparr>ParseSignedAndEncrypted =
        (\<lambda>s. if s = ''nested.jwe'' then Inr (NestedJWT s) else Inl ''not a JWE''),
      ParseSigned =
        (\<lambda>s. if s = ''signed.jws'' \<or> s = ''echo.jws'' then Inr (JWT s) else Inl ''not a JWS''),
      Decrypt =
        (\<lambda>n k. if k = KeyMaterial ''dec'' then Inr (JWT ''signed.jws'')
               else Inl ''decryption failed''),
      Claims =
        (\<lambda>t k. if k = KeyMaterial ''sig'' then
                 (if t = JWT ''echo.jws'' then ([''response'' \<mapsto> AString ''junk''], None)
                  else ([''code'' \<mapsto> AString ''abc123'', ''state'' \<mapsto> AString ''xyz''], None))
               else (Map.empty, Some ''signature verification failed''))\<rparr>"

definition jarm_request :: "string \<Rightarrow> Request" where
  \<comment> \<open>The captured callback \<^verbatim>\<open>GET /callback?response=...\<close>.\<close>
  "jarm_request response =
     zero_Request\<lparr>Method := ''GET'',
                  URL := Some \<lparr>Scheme = [], Host = [], Path = ''/callback'',
                               RawQuery = [''response'' \<mapsto> [response]]\<rparr>\<rparr>"

definition example_client :: "string \<Rightarrow> ClientConfig" where
  "example_client method =
     \<lparr>IssuerURL = ''https://idp.example'', ClientID = ''cid'', ClientSecret = ''secret'',
      GrantType = AuthorizationCodeGrantType, AuthMethod = method\<rparr>"

definition example_server :: ServerConfig where
  "example_server =
     \<lparr>AuthorizationEndpoint = ''https://idp.example/authorize'',
      TokenEndpoint = ''https://idp.example/token''\<rparr>"

definition example_hc :: http_Client where
  "example_hc =
     \<lparr>Transport = HttpTransport (Some \<lparr>Certificates = [\<lparr>Certificate = [''leaf'', ''ca'']\<rparr>]\<rparr>)\<rparr>"

definition example_sign :: SignJWT where
  "example_sign cl sg =
     (case sg of
        SecretSigner secret \<Rightarrow> (''assertion.hs256'', Some (KeyMaterial secret), None)
      | JWKSigner cconfig hc \<Rightarrow> ([], None, Some (External ''no signing key in the JWK set'')))"

definition example_parse :: ParseCertificate where
  "example_parse der = (if der = ''leaf'' then Some (X509 ''CN=cid'') else None)"

definition token_json :: string where
  \<open>token_json = ''{"access_token":"T","token_type":"Bearer","expires_in":3600}''\<close>

definition error_json :: string where
  \<open>error_json = ''{"error":"invalid_grant"}''\<close>

definition example_world :: world where
  "example_world =
     \<lparr>url_Parse =
        (\<lambda>s. if s = ''https://idp.example/token'' then
                 Inr \<lparr>Scheme = ''https'', Host = ''idp.example'', Path = ''/token'',
                      RawQuery = Map.empty\<rparr>
              else if s = ''https://idp.example/authorize'' then
                 Inr \<lparr>Scheme = ''https'', Host = ''idp.example'', Path = ''/authorize'',
                      RawQuery = Map.empty\<rparr>
              else Inl ''missing protocol scheme''),
      base64 = (\<lambda>s. ''b64:'' @ s),
      Do =
        (\<lambda>req. if Host (http_URL req) \<noteq> ''idp.example'' then Inl ''no such host''
                else if http_Body req ''code'' = Some [''abc123''] then
                  Inr \<lparr>StatusCode = 200, Body = Inr token_json\<rparr>
                else if http_Body req ''code'' = Some [''html''] then
                  Inr \<lparr>StatusCode = 200, Body = Inr ''<html>''\<rparr>
                else Inr \<lparr>StatusCode = 400, Body = Inr error_json\<rparr>),
      Unmarshal_TokenResponse =
        (\<lambda>bs. if bs = token_json then
                  (zero_TokenResponse\<lparr>AccessToken := ''T'', TokenType := ''Bearer'',
                                       ExpiresIn := 3600\<rparr>, None)
               else (zero_TokenResponse, Some ''invalid character'')),
      Unmarshal_Error =
        (\<lambda>bs. if bs = error_json then
                  (\<lparr>ErrorCode = ''invalid_grant'', Description = [], Hint = [], TraceID = []\<rparr>,
                   None)
               else (\<lparr>ErrorCode = [], Description = [], Hint = [], TraceID = []\<rparr>,
                     Some ''invalid character''))\<rparr>"

definition redirect :: "Values \<Rightarrow> http_Request" where
  \<comment> \<open>The browser's \<^verbatim>\<open>GET /callback?...\<close> on the local listener.\<close>
  "redirect query =
     \<lparr>http_Method = ''GET'',
      http_URL = \<lparr>Scheme = [], Host = [], Path = ''/callback'', RawQuery = query\<rparr>,
      http_Header = Map.empty, http_Body = Map.empty\<rparr>"

definition example_net :: "string \<Rightarrow> serving" where
  "example_net addr =
     (if addr = ''127.0.0.1:9876'' then Serves [redirect [''code'' \<mapsto> [''abc123'']]]
      else if addr = ''127.0.0.1:9877'' then
        Serves [redirect [''error'' \<mapsto> [''access_denied''], ''error_description'' \<mapsto> [''D'']]]
      else ListenFailed ''address already in use'')"

definition example_gen :: "nat \<Rightarrow> string" where
  "example_gen n = replicate (Suc n) CHR ''x''"

definition partial_jose :: jose where
  \<comment> \<open>A go-jose whose \<^verbatim>\<open>token.Claims\<close> decodes one entry of the payload into the
      destination and then fails.\<close>
  "partial_jose =
     \<lparr>ParseSignedAndEncrypted = (\<lambda>s. Inl ''not a JWE''),
      ParseSigned = (\<lambda>s. Inr (JWT s)),
      Decrypt = (\<lambda>n k. Inl ''decryption failed''),
      Claims =
        (\<lambda>t k. ([''iss'' \<mapsto> AString ''https://idp.example''],
                Some ''json: duplicate key in object''))\<rparr>"

definition replayed_net :: "string \<Rightarrow> serving" where
  \<comment> \<open>Two redirects reach the listener before it closes: a failure, then a success.\<close>
  "replayed_net addr =
     Serves [redirect [''error'' \<mapsto> [''access_denied''], ''error_description'' \<mapsto> [''D'']],
             redirect [''code'' \<mapsto> [''abc123'']]]"

section \<open>Request.Get and Request.ParseJARM: theorems\<close>

lemma ParseJARM_Returned:
  "Get r ''response'' = Returned response \<Longrightarrow>
   ParseJARM J signingKey encryptionKey r =
     (if response \<noteq> [] then
        (case ParseSignedAndEncrypted J response of
           Inl err \<Rightarrow>
             (case ParseSigned J response of
                Inl err2 \<Rightarrow>
                  (r\<lparr>JARM := Some Map.empty\<rparr>,
                   Returned (Some (Wrapped ''failed to parse JARM response''
                                     (Multi [External err, External err2]))))
              | Inr token \<Rightarrow> verify_claims J signingKey token (r\<lparr>JARM := Some Map.empty\<rparr>))
         | Inr nestedToken \<Rightarrow>
             (case encryptionKey of
                Some ek \<Rightarrow>
                  (case Decrypt J nestedToken ek of
                     Inl err \<Rightarrow>
                       (r\<lparr>JARM := Some Map.empty\<rparr>,
                        Returned (Some (Wrapped ''failed to decrypt encrypted JARM response''
                                          (External err))))
                   | Inr token \<Rightarrow> verify_claims J signingKey token (r\<lparr>JARM := Some Map.empty\<rparr>))
              | None \<Rightarrow>
                  (r\<lparr>JARM := Some Map.empty\<rparr>, Returned (Some (New ''no encryption key path'')))))
      else (r\<lparr>JARM := Some Map.empty\<rparr>, Returned None))"
  by (simp add: ParseJARM_def Let_def)

lemma ParseJARM_frame:
  assumes "Get r ''response'' = Returned response"
  shows "\<exists>m x. ParseJARM J sk ek r = (r\<lparr>JARM := Some m\<rparr>, Returned x)"
  using assms
  by (auto simp: ParseJARM_Returned verify_claims_def split: sum.splits option.splits prod.splits)

lemma ParseJARM_Returned_Get:
  assumes "ParseJARM J sk ek r = (r', Returned x)"
  shows "\<exists>response. Get r ''response'' = Returned response"
  using assms by (cases "Get r ''response''") (auto simp: ParseJARM_def)

lemma Get_JARM_update:
  "string_claim r k = None \<Longrightarrow> string_claim (r\<lparr>JARM := m\<rparr>) k = None \<Longrightarrow>
   Get (r\<lparr>JARM := m\<rparr>) k = Get r k"
  by (simp add: Get_def Form_Get_def split: option.splits)

lemma Get_jarm_request: "Get (jarm_request response) ''response'' = Returned response"
  by (simp add: Get_def jarm_request_def zero_Request_def string_claim_def URL_Query_def
        Values_Get_def Form_Get_def)

text \<open>
  Claim C10. \<^verbatim>\<open>Get\<close> returns only when the URL is not nil or the claim map holds a
  string for the key. When the claim map holds a string for the key, \<^verbatim>\<open>Get\<close> returns it
  whatever the URL is, nil included. When the URL is nil and the claim map holds no such
  string, \<^verbatim>\<open>Get\<close> dereferences the nil URL and panics, where an empty result would have
  been possible; \<^verbatim>\<open>ParseJARM\<close>, which calls \<^verbatim>\<open>Get("response")\<close> before it resets the
  claim map, panics with it and leaves the Request as it was.
\<close>

theorem Get_total_only_with_URL:
  "(JARM r = Some m \<and> m k = Some (AString v)
      \<longrightarrow> Get r k = Returned v \<and> Get (r\<lparr>URL := u\<rparr>) k = Returned v)
   \<and> (string_claim r k = None \<and> URL r = None \<longrightarrow> Get r k = Panicked NilPointerDereference)
   \<and> (string_claim r ''response'' = None \<and> URL r = None
      \<longrightarrow> ParseJARM J signingKey encryptionKey r = (r, Panicked NilPointerDereference))
   \<and> ((\<exists>v. Get r k = Returned v) \<longleftrightarrow> (string_claim r k \<noteq> None \<or> URL r \<noteq> None))"
proof -
  have a: "JARM r = Some m \<and> m k = Some (AString v)
      \<longrightarrow> Get r k = Returned v \<and> Get (r\<lparr>URL := u\<rparr>) k = Returned v"
    by (simp add: Get_def string_claim_def)
  have b: "string_claim r k = None \<and> URL r = None \<longrightarrow> Get r k = Panicked NilPointerDereference"
    by (simp add: Get_def)
  have c: "string_claim r ''response'' = None \<and> URL r = None
      \<longrightarrow> ParseJARM J signingKey encryptionKey r = (r, Panicked NilPointerDereference)"
    by (simp add: ParseJARM_def Get_def)
  have d: "(\<exists>v. Get r k = Returned v) \<longleftrightarrow> (string_claim r k \<noteq> None \<or> URL r \<noteq> None)"
    by (auto simp: Get_def split: option.splits)
  from a b c d show ?thesis by blast
qed

theorem Get_total_only_with_URL_witness:
  "Get (zero_Request\<lparr>JARM := Some [''response'' \<mapsto> AString ''signed.jws'']\<rparr>) ''response''
     = Returned ''signed.jws''
   \<and> Get zero_Request ''response'' = Panicked NilPointerDereference
   \<and> ParseJARM example_jose None None zero_Request
       = (zero_Request, Panicked NilPointerDereference)"
proof -
  have s: "string_claim zero_Request ''response'' = None" "URL zero_Request = None"
    by (simp_all add: string_claim_def zero_Request_def)
  have j: "JARM (zero_Request\<lparr>JARM := Some [''response'' \<mapsto> AString ''signed.jws'']\<rparr>)
             = Some [''response'' \<mapsto> AString ''signed.jws'']"
          "[''response'' \<mapsto> AString ''signed.jws''] ''response'' = Some (AString ''signed.jws'')"
    by simp_all
  from Get_total_only_with_URL
         [where r = "zero_Request\<lparr>JARM := Some [''response'' \<mapsto> AString ''signed.jws'']\<rparr>"
            and m = "[''response'' \<mapsto> AString ''signed.jws'']" and k = "''response''"
            and v = "''signed.jws''"]
       Get_total_only_with_URL
         [where r = zero_Request and k = "''response''" and J = example_jose
            and signingKey = None and encryptionKey = None]
       s j
  show ?thesis by blast
qed

text \<open>
  Claim C3. Let the Request carry a response value that is not empty (\<^verbatim>\<open>Get\<close> returns
  it). \<^verbatim>\<open>ParseJARM\<close> first parses the value as a signed and encrypted token and falls back
  to a signed token when that fails; when both fail it returns one error that wraps both
  failures, in that order. When the nested parse succeeds and no encryption key is given it
  returns the error \<^verbatim>\<open>no encryption key path\<close>, whatever the signing key and the
  signature check are; when decryption fails it returns that failure. Once a token is at
  hand, a missing signing key gives the error \<^verbatim>\<open>no signing key path\<close>, and a signing key
  that is present is used: the claims and the error are those of \<^verbatim>\<open>token.Claims\<close>. So a
  call that returns no error has verified the token with the signing key.
\<close>

theorem ParseJARM_parse_and_key_policy:
  assumes "Get r ''response'' = Returned response" and "response \<noteq> []"
  shows
    "(ParseSignedAndEncrypted J response = Inl e1 \<and> ParseSigned J response = Inl e2 \<longrightarrow>
        ParseJARM J sk ek r =
          (r\<lparr>JARM := Some Map.empty\<rparr>,
           Returned (Some (Wrapped ''failed to parse JARM response''
                             (Multi [External e1, External e2])))))
     \<and> (ParseSignedAndEncrypted J response = Inr nested \<longrightarrow>
          (\<forall>c. ParseJARM (J\<lparr>Claims := c\<rparr>) sk None r =
             (r\<lparr>JARM := Some Map.empty\<rparr>, Returned (Some (New ''no encryption key path'')))))
     \<and> (ParseSignedAndEncrypted J response = Inr nested \<and> Decrypt J nested dk = Inl e1 \<longrightarrow>
          ParseJARM J sk (Some dk) r =
            (r\<lparr>JARM := Some Map.empty\<rparr>,
             Returned (Some (Wrapped ''failed to decrypt encrypted JARM response'' (External e1)))))
     \<and> ((ParseSignedAndEncrypted J response = Inl e1 \<and> ParseSigned J response = Inr token
          \<or> ParseSignedAndEncrypted J response = Inr nested \<and> ek = Some dk
            \<and> Decrypt J nested dk = Inr token) \<longrightarrow>
          ParseJARM J None ek r =
            (r\<lparr>JARM := Some Map.empty\<rparr>, Returned (Some (New ''no signing key path'')))
          \<and> ParseJARM J (Some vk) ek r =
              (r\<lparr>JARM := Some (fst (Claims J token vk))\<rparr>,
               Returned (map_option External (snd (Claims J token vk)))))
     \<and> (ParseJARM J sk ek r = (r', Returned None) \<longrightarrow>
          (\<exists>vk token claims. sk = Some vk \<and> Claims J token vk = (claims, None)
             \<and> r' = r\<lparr>JARM := Some claims\<rparr>))"
proof -
  note PJ = ParseJARM_Returned [OF assms(1)]
  have a: "ParseSignedAndEncrypted J response = Inl e1 \<and> ParseSigned J response = Inl e2 \<longrightarrow>
        ParseJARM J sk ek r =
          (r\<lparr>JARM := Some Map.empty\<rparr>,
           Returned (Some (Wrapped ''failed to parse JARM response''
                             (Multi [External e1, External e2]))))"
    using assms(2) by (simp add: PJ)
  have b: "ParseSignedAndEncrypted J response = Inr nested \<longrightarrow>
          (\<forall>c. ParseJARM (J\<lparr>Claims := c\<rparr>) sk None r =
             (r\<lparr>JARM := Some Map.empty\<rparr>, Returned (Some (New ''no encryption key path''))))"
    using assms(2) by (simp add: PJ)
  have c: "ParseSignedAndEncrypted J response = Inr nested \<and> Decrypt J nested dk = Inl e1 \<longrightarrow>
          ParseJARM J sk (Some dk) r =
            (r\<lparr>JARM := Some Map.empty\<rparr>,
             Returned (Some (Wrapped ''failed to decrypt encrypted JARM response'' (External e1))))"
    using assms(2) by (simp add: PJ)
  have d: "(ParseSignedAndEncrypted J response = Inl e1 \<and> ParseSigned J response = Inr token
          \<or> ParseSignedAndEncrypted J response = Inr nested \<and> ek = Some dk
            \<and> Decrypt J nested dk = Inr token) \<longrightarrow>
          ParseJARM J None ek r =
            (r\<lparr>JARM := Some Map.empty\<rparr>, Returned (Some (New ''no signing key path'')))
          \<and> ParseJARM J (Some vk) ek r =
              (r\<lparr>JARM := Some (fst (Claims J token vk))\<rparr>,
               Returned (map_option External (snd (Claims J token vk))))"
    using assms(2)
    by (auto simp: PJ verify_claims_def split: prod.splits option.splits)
  have e: "ParseJARM J sk ek r = (r', Returned None) \<longrightarrow>
          (\<exists>vk token claims. sk = Some vk \<and> Claims J token vk = (claims, None)
             \<and> r' = r\<lparr>JARM := Some claims\<rparr>)"
    using assms(2)
    by (auto simp: PJ verify_claims_def split: sum.splits prod.splits option.splits)
  from a b c d e show ?thesis by blast
qed

theorem ParseJARM_parse_and_key_policy_witness:
  "ParseJARM example_jose None None (jarm_request ''garbage'')
     = ((jarm_request ''garbage'')\<lparr>JARM := Some Map.empty\<rparr>,
        Returned (Some (Wrapped ''failed to parse JARM response''
                          (Multi [External ''not a JWE'', External ''not a JWS'']))))
   \<and> ParseJARM example_jose (Some (KeyMaterial ''sig'')) None (jarm_request ''nested.jwe'')
       = ((jarm_request ''nested.jwe'')\<lparr>JARM := Some Map.empty\<rparr>,
          Returned (Some (New ''no encryption key path'')))
   \<and> ParseJARM example_jose None (Some (KeyMaterial ''dec'')) (jarm_request ''nested.jwe'')
       = ((jarm_request ''nested.jwe'')\<lparr>JARM := Some Map.empty\<rparr>,
          Returned (Some (New ''no signing key path'')))"
proof -
  have p: "ParseSignedAndEncrypted example_jose ''garbage'' = Inl ''not a JWE''"
          "ParseSigned example_jose ''garbage'' = Inl ''not a JWS''"
          "ParseSignedAndEncrypted example_jose ''nested.jwe'' = Inr (NestedJWT ''nested.jwe'')"
          "Decrypt example_jose (NestedJWT ''nested.jwe'') (KeyMaterial ''dec'')
             = Inr (JWT ''signed.jws'')"
    by (simp_all add: example_jose_def)
  have n: "''garbage'' \<noteq> []" "''nested.jwe'' \<noteq> []" by simp_all
  have c: "example_jose\<lparr>Claims := Claims example_jose\<rparr> = example_jose" by simp
  from ParseJARM_parse_and_key_policy
         [OF Get_jarm_request n(1), where J = example_jose and ?e1.0 = "''not a JWE''"
            and ?e2.0 = "''not a JWS''" and sk = None and ek = None]
       ParseJARM_parse_and_key_policy
         [OF Get_jarm_request n(2), where J = example_jose
            and nested = "NestedJWT ''nested.jwe''" and sk = "Some (KeyMaterial ''sig'')"]
       ParseJARM_parse_and_key_policy
         [OF Get_jarm_request n(2), where J = example_jose
            and nested = "NestedJWT ''nested.jwe''" and ek = "Some (KeyMaterial ''dec'')"
            and dk = "KeyMaterial ''dec''" and token = "JWT ''signed.jws''"]
       p c
  show ?thesis by metis
qed

text \<open>
  Claim C6, as amended. Let \<^verbatim>\<open>Get("response")\<close> return. Then \<^verbatim>\<open>ParseJARM\<close> returns,
  and the Request it leaves differs from the one it was given in the claim map only, which
  is never nil afterwards and keeps nothing of the old claim map. When no response value is
  present it returns no error and the claim map is empty. When the error arises before
  \<^verbatim>\<open>token.Claims\<close> is called (both parses fail, the decryption key is missing,
  decryption fails, the signing key is missing) the claim map is empty. Once a token is at
  hand (parsed as a signed token after the nested parse failed, or decrypted from the
  nested token) and a signing key is given, the claim map holds exactly what
  \<^verbatim>\<open>token.Claims\<close> decoded from that token with that key, and the error is that of
  \<^verbatim>\<open>token.Claims\<close>: on success the map is populated and no error is returned, on failure
  the error is returned and the map is not cleared.
\<close>

theorem ParseJARM_claim_map:
  assumes "Get r ''response'' = Returned response"
  shows
    "(response = [] \<longrightarrow>
        ParseJARM J sk ek r = (r\<lparr>JARM := Some Map.empty\<rparr>, Returned None))
     \<and> (response \<noteq> []
          \<and> (ParseSignedAndEncrypted J response = Inl e1 \<and> ParseSigned J response = Inl e2
             \<or> ParseSignedAndEncrypted J response = Inr nested \<and> ek = None
             \<or> ParseSignedAndEncrypted J response = Inr nested \<and> ek = Some dk
               \<and> Decrypt J nested dk = Inl e1
             \<or> sk = None) \<longrightarrow>
          (\<exists>e. ParseJARM J sk ek r = (r\<lparr>JARM := Some Map.empty\<rparr>, Returned (Some e))))
     \<and> (response \<noteq> [] \<and> sk = Some vk
          \<and> (ParseSignedAndEncrypted J response = Inl e1 \<and> ParseSigned J response = Inr token
             \<or> ParseSignedAndEncrypted J response = Inr nested \<and> ek = Some dk
               \<and> Decrypt J nested dk = Inr token) \<longrightarrow>
          ParseJARM J sk ek r =
            (r\<lparr>JARM := Some (fst (Claims J token vk))\<rparr>,
             Returned (map_option External (snd (Claims J token vk)))))
     \<and> (\<exists>claims res. ParseJARM J sk ek r = (r\<lparr>JARM := Some claims\<rparr>, Returned res))"
  (is "?absent \<and> ?early \<and> ?claims \<and> ?frame")
proof -
  note PJ = ParseJARM_Returned [OF assms]
  have absent: ?absent
    by (simp add: PJ)
  have early: ?early
    by (auto simp: PJ verify_claims_def split: sum.splits option.splits)
  have claims: ?claims
    by (auto simp: PJ verify_claims_def split: prod.splits option.splits)
  have frame: ?frame
    using ParseJARM_frame [OF assms] by blast
  show ?thesis
    by (intro conjI absent early claims frame)
qed

theorem ParseJARM_claim_map_witness:
  "ParseJARM example_jose (Some (KeyMaterial ''sig'')) None (jarm_request [])
     = ((jarm_request [])\<lparr>JARM := Some Map.empty\<rparr>, Returned None)
   \<and> ParseJARM example_jose (Some (KeyMaterial ''sig'')) None (jarm_request ''signed.jws'')
       = ((jarm_request ''signed.jws'')
            \<lparr>JARM := Some [''code'' \<mapsto> AString ''abc123'', ''state'' \<mapsto> AString ''xyz'']\<rparr>,
          Returned None)
   \<and> ParseJARM example_jose (Some (KeyMaterial ''wrong'')) None (jarm_request ''signed.jws'')
       = ((jarm_request ''signed.jws'')\<lparr>JARM := Some Map.empty\<rparr>,
          Returned (Some (External ''signature verification failed'')))
   \<and> (\<exists>e. ParseJARM example_jose None None (jarm_request ''signed.jws'')
             = ((jarm_request ''signed.jws'')\<lparr>JARM := Some Map.empty\<rparr>, Returned (Some e)))"
proof -
  have p: "ParseSignedAndEncrypted example_jose ''signed.jws'' = Inl ''not a JWE''"
          "ParseSigned example_jose ''signed.jws'' = Inr (JWT ''signed.jws'')"
    by (simp_all add: example_jose_def)
  have c: "Claims example_jose (JWT ''signed.jws'') (KeyMaterial ''sig'')
             = ([''code'' \<mapsto> AString ''abc123'', ''state'' \<mapsto> AString ''xyz''], None)"
          "Claims example_jose (JWT ''signed.jws'') (KeyMaterial ''wrong'')
             = (Map.empty, Some ''signature verification failed'')"
    by (simp_all add: example_jose_def)
  have n: "''signed.jws'' \<noteq> []" by simp
  from ParseJARM_claim_map
         [OF Get_jarm_request, where response = "[]" and J = example_jose
            and sk = "Some (KeyMaterial ''sig'')" and ek = None]
  have 1: "ParseJARM example_jose (Some (KeyMaterial ''sig'')) None (jarm_request [])
     = ((jarm_request [])\<lparr>JARM := Some Map.empty\<rparr>, Returned None)"
    by blast
  from ParseJARM_claim_map
         [OF Get_jarm_request, where response = "''signed.jws''" and J = example_jose
            and sk = "Some (KeyMaterial ''sig'')" and vk = "KeyMaterial ''sig''" and ek = None
            and ?e1.0 = "''not a JWE''" and token = "JWT ''signed.jws''"]
       p n c(1)
  have 2: "ParseJARM example_jose (Some (KeyMaterial ''sig'')) None (jarm_request ''signed.jws'')
       = ((jarm_request ''signed.jws'')
            \<lparr>JARM := Some [''code'' \<mapsto> AString ''abc123'', ''state'' \<mapsto> AString ''xyz'']\<rparr>,
          Returned None)"
    by simp
  from ParseJARM_claim_map
         [OF Get_jarm_request, where response = "''signed.jws''" and J = example_jose
            and sk = "Some (KeyMaterial ''wrong'')" and vk = "KeyMaterial ''wrong''"
            and ek = None and ?e1.0 = "''not a JWE''" and token = "JWT ''signed.jws''"]
       p n c(2)
  have 3: "ParseJARM example_jose (Some (KeyMaterial ''wrong'')) None (jarm_request ''signed.jws'')
       = ((jarm_request ''signed.jws'')\<lparr>JARM := Some Map.empty\<rparr>,
          Returned (Some (External ''signature verification failed'')))"
    by simp
  from ParseJARM_claim_map
         [OF Get_jarm_request, where response = "''signed.jws''" and J = example_jose
            and sk = None and ek = None]
       n
  have 4: "\<exists>e. ParseJARM example_jose None None (jarm_request ''signed.jws'')
             = ((jarm_request ''signed.jws'')\<lparr>JARM := Some Map.empty\<rparr>, Returned (Some e))"
    by blast
  from 1 2 3 4 show ?thesis by (intro conjI)
qed

text \<open>
  Claim C6 as stated fails. The callback carries \<^verbatim>\<open>response=dup.jws\<close>, a signed token
  on which \<^verbatim>\<open>token.Claims\<close> decodes the entry \<^verbatim>\<open>iss\<close> into the claim map and then
  fails. \<^verbatim>\<open>ParseJARM\<close> returns that error, and the claim map it leaves is not empty: it
  holds the entry decoded before the failure.
\<close>

theorem ParseJARM_error_keeps_claims:
  "ParseJARM partial_jose (Some (KeyMaterial ''sig'')) None (jarm_request ''dup.jws'')
     = ((jarm_request ''dup.jws'')\<lparr>JARM := Some [''iss'' \<mapsto> AString ''https://idp.example'']\<rparr>,
        Returned (Some (External ''json: duplicate key in object'')))
   \<and> [''iss'' \<mapsto> AString ''https://idp.example''] ''iss''
       = Some (AString ''https://idp.example'')"
  by (simp add: ParseJARM_Returned [OF Get_jarm_request] verify_claims_def partial_jose_def)

text \<open>
  Claim C7, as amended. \<^verbatim>\<open>Get\<close> looks a key up in the claim map first (a string value
  only), then in the query of the URL (a value that is not empty), then in the form. Let
  \<^verbatim>\<open>ParseJARM\<close> have returned no error on a Request, and let neither the claim map it was
  given nor the claim map it left hold a string under \<^verbatim>\<open>response\<close>. Then \<^verbatim>\<open>ParseJARM\<close>
  with the same keys on the Request it left returns no error again and leaves the same
  Request, so the same claim map.
\<close>

theorem ParseJARM_idempotent:
  assumes "ParseJARM J sk ek r = (r', Returned None)"
      and "string_claim r ''response'' = None"
      and "string_claim r' ''response'' = None"
  shows "ParseJARM J sk ek r' = (r', Returned None)
         \<and> (\<forall>q k v. string_claim q k = Some v \<longrightarrow> Get q k = Returned v)
         \<and> (\<forall>q k u. string_claim q k = None \<and> URL q = Some u
               \<and> Values_Get (URL_Query u) k \<noteq> []
               \<longrightarrow> Get q k = Returned (Values_Get (URL_Query u) k))
         \<and> (\<forall>q k u. string_claim q k = None \<and> URL q = Some u
               \<and> Values_Get (URL_Query u) k = []
               \<longrightarrow> Get q k = Returned (Form_Get q k))"
proof -
  obtain response where g: "Get r ''response'' = Returned response"
    using ParseJARM_Returned_Get [OF assms(1)] by blast
  obtain m x where f: "ParseJARM J sk ek r = (r\<lparr>JARM := Some m\<rparr>, Returned x)"
    using ParseJARM_frame [OF g] by blast
  from f assms(1) have r': "r' = r\<lparr>JARM := Some m\<rparr>" by simp
  have g': "Get (r\<lparr>JARM := Some m\<rparr>) ''response'' = Returned response"
    using Get_JARM_update [OF assms(2)] assms(3) g unfolding r' by simp
  have u: "r\<lparr>JARM := Some m, JARM := Some Map.empty\<rparr> = r\<lparr>JARM := Some Map.empty\<rparr>"
    by simp
  have "ParseJARM J sk ek (r\<lparr>JARM := Some m\<rparr>) = ParseJARM J sk ek r"
    unfolding ParseJARM_Returned [OF g] ParseJARM_Returned [OF g'] u by (rule refl)
  with assms(1) r' have again: "ParseJARM J sk ek r' = (r', Returned None)" by simp
  have order: "(\<forall>q k v. string_claim q k = Some v \<longrightarrow> Get q k = Returned v)
         \<and> (\<forall>q k u. string_claim q k = None \<and> URL q = Some u
               \<and> Values_Get (URL_Query u) k \<noteq> []
               \<longrightarrow> Get q k = Returned (Values_Get (URL_Query u) k))
         \<and> (\<forall>q k u. string_claim q k = None \<and> URL q = Some u
               \<and> Values_Get (URL_Query u) k = []
               \<longrightarrow> Get q k = Returned (Form_Get q k))"
    by (simp add: Get_def)
  from again order show ?thesis by blast
qed

theorem ParseJARM_idempotent_witness:
  "ParseJARM example_jose (Some (KeyMaterial ''sig'')) None
     ((jarm_request ''signed.jws'')
        \<lparr>JARM := Some [''code'' \<mapsto> AString ''abc123'', ''state'' \<mapsto> AString ''xyz'']\<rparr>)
   = ((jarm_request ''signed.jws'')
        \<lparr>JARM := Some [''code'' \<mapsto> AString ''abc123'', ''state'' \<mapsto> AString ''xyz'']\<rparr>,
      Returned None)"
proof -
  let ?r' = "(jarm_request ''signed.jws'')
        \<lparr>JARM := Some [''code'' \<mapsto> AString ''abc123'', ''state'' \<mapsto> AString ''xyz'']\<rparr>"
  have 1: "ParseJARM example_jose (Some (KeyMaterial ''sig'')) None (jarm_request ''signed.jws'')
             = (?r', Returned None)"
    by (simp add: ParseJARM_Returned [OF Get_jarm_request] verify_claims_def example_jose_def)
  have 2: "string_claim (jarm_request ''signed.jws'') ''response'' = None"
    by (simp add: string_claim_def jarm_request_def zero_Request_def)
  have 3: "string_claim ?r' ''response'' = None"
    by (simp add: string_claim_def)
  from ParseJARM_idempotent [OF 1 2 3] show ?thesis by blast
qed

text \<open>
  Claim C7 as stated fails. The callback carries \<^verbatim>\<open>response=echo.jws\<close>, a signed token
  whose verified claims hold a string under \<^verbatim>\<open>response\<close>. The first call returns no
  error and stores the claims. The second call on the Request so verified, with the same
  keys, reads \<^verbatim>\<open>response\<close> from the claim map, cannot parse it, returns the combined
  parse error and leaves the claim map empty.
\<close>

theorem ParseJARM_not_idempotent:
  "ParseJARM example_jose (Some (KeyMaterial ''sig'')) None (jarm_request ''echo.jws'')
     = ((jarm_request ''echo.jws'')\<lparr>JARM := Some [''response'' \<mapsto> AString ''junk'']\<rparr>,
        Returned None)
   \<and> ParseJARM example_jose (Some (KeyMaterial ''sig'')) None
       ((jarm_request ''echo.jws'')\<lparr>JARM := Some [''response'' \<mapsto> AString ''junk'']\<rparr>)
     = ((jarm_request ''echo.jws'')\<lparr>JARM := Some Map.empty\<rparr>,
        Returned (Some (Wrapped ''failed to parse JARM response''
                          (Multi [External ''not a JWE'', External ''not a JWS'']))))"
proof -
  have g: "Get ((jarm_request ''echo.jws'')\<lparr>JARM := Some [''response'' \<mapsto> AString ''junk'']\<rparr>)
             ''response'' = Returned ''junk''"
    by (simp add: Get_def string_claim_def)
  have 1: "ParseJARM example_jose (Some (KeyMaterial ''sig'')) None (jarm_request ''echo.jws'')
     = ((jarm_request ''echo.jws'')\<lparr>JARM := Some [''response'' \<mapsto> AString ''junk'']\<rparr>,
        Returned None)"
    by (simp add: ParseJARM_Returned [OF Get_jarm_request] verify_claims_def example_jose_def)
  have 2: "ParseJARM example_jose (Some (KeyMaterial ''sig'')) None
       ((jarm_request ''echo.jws'')\<lparr>JARM := Some [''response'' \<mapsto> AString ''junk'']\<rparr>)
     = ((jarm_request ''echo.jws'')\<lparr>JARM := Some Map.empty\<rparr>,
        Returned (Some (Wrapped ''failed to parse JARM response''
                          (Multi [External ''not a JWE'', External ''not a JWS'']))))"
    by (simp add: ParseJARM_Returned [OF g] example_jose_def)
  from 1 2 show ?thesis by simp
qed

section \<open>Request.AuthenticateClient: theorems\<close>

lemmas auth_method_defs =
  ClientSecretBasicAuthMethod_def ClientSecretPostAuthMethod_def ClientSecretJwtAuthMethod_def
  PrivateKeyJwtAuthMethod_def SelfSignedTLSAuthMethod_def TLSClientAuthMethod_def

lemma auth_methods_distinct:
  "distinct [ClientSecretPostAuthMethod, ClientSecretBasicAuthMethod, ClientSecretJwtAuthMethod,
     PrivateKeyJwtAuthMethod, TLSClientAuthMethod, SelfSignedTLSAuthMethod]"
  by (simp add: auth_method_defs)

lemma auth_method_neq:
  "ClientSecretJwtAuthMethod \<noteq> ClientSecretPostAuthMethod"
  "PrivateKeyJwtAuthMethod \<noteq> ClientSecretPostAuthMethod"
  "PrivateKeyJwtAuthMethod \<noteq> ClientSecretJwtAuthMethod"
  "TLSClientAuthMethod \<noteq> ClientSecretPostAuthMethod"
  "TLSClientAuthMethod \<noteq> ClientSecretJwtAuthMethod"
  "TLSClientAuthMethod \<noteq> PrivateKeyJwtAuthMethod"
  "SelfSignedTLSAuthMethod \<noteq> ClientSecretPostAuthMethod"
  "SelfSignedTLSAuthMethod \<noteq> ClientSecretJwtAuthMethod"
  "SelfSignedTLSAuthMethod \<noteq> PrivateKeyJwtAuthMethod"
  "ClientSecretBasicAuthMethod \<noteq> ClientSecretPostAuthMethod"
  "ClientSecretBasicAuthMethod \<noteq> ClientSecretJwtAuthMethod"
  "ClientSecretBasicAuthMethod \<noteq> PrivateKeyJwtAuthMethod"
  "ClientSecretBasicAuthMethod \<noteq> TLSClientAuthMethod"
  "ClientSecretBasicAuthMethod \<noteq> SelfSignedTLSAuthMethod"
  by (simp_all add: auth_method_defs)

lemma assert_client_frame:
  "same_but_auth (fst (assert_client sign sg endpoint cconfig sconfig r)) r"
  by (auto simp: assert_client_def Values_Set_def Let_def split: option.splits prod.splits)

lemma tls_client_frame:
  "same_but_auth (fst (tls_client parse mtlsEndpoint cconfig hc r)) r"
  by (auto simp: tls_client_def Values_Set_def Let_def
           split: option.splits RoundTripper.splits list.splits)

lemma AuthenticateClient_frame:
  "same_but_auth (fst (AuthenticateClient sign parse endpoint mtlsEndpoint cconfig sconfig hc r)) r"
proof -
  have post: "\<And>f. Form r = Some f \<Longrightarrow>
     same_but_auth (r\<lparr>Form := Some (Values_Set (Values_Set f ''client_id'' (ClientID cconfig))
                                 ''client_secret'' (ClientSecret cconfig))\<rparr>) r"
    by (simp add: Values_Set_def)
  show ?thesis
    unfolding AuthenticateClient_def
    using assert_client_frame tls_client_frame post
    by (simp split: option.splits)
qed

text \<open>
  Claim C4. On a Request whose form is initialised, \<^verbatim>\<open>AuthenticateClient\<close> does, by
  method: \<^verbatim>\<open>client_secret_post\<close> sets the form fields \<^verbatim>\<open>client_id\<close> and
  \<^verbatim>\<open>client_secret\<close> and nothing else; \<^verbatim>\<open>client_secret_basic\<close> changes nothing; the
  two JWT methods set the key (with the secret signer and the JWK signer in turn) and, when
  signing succeeds, the form fields \<^verbatim>\<open>client_assertion_type\<close> and \<^verbatim>\<open>client_assertion\<close>,
  and return the signing error without touching the form otherwise; the two TLS methods set
  the form field \<^verbatim>\<open>client_id\<close>, return the mutual-TLS endpoint and store the parsed leaf
  certificate of the transport when it has one; an unmatched method changes nothing and
  returns the endpoint it was given. The method names are pairwise distinct, so one case
  applies. For every Request, the method, the URL, the headers, the claim map and every
  form field other than the four named above are left as they were.
\<close>

theorem AuthenticateClient_fields:
  "(AuthMethod cconfig = ClientSecretPostAuthMethod \<and> Form r = Some f \<longrightarrow>
      AuthenticateClient sign parse endpoint mtlsEndpoint cconfig sconfig hc r =
        (r\<lparr>Form := Some (f(''client_id'' \<mapsto> [ClientID cconfig],
                             ''client_secret'' \<mapsto> [ClientSecret cconfig]))\<rparr>,
         Returned (endpoint, None)))
   \<and> (AuthMethod cconfig = ClientSecretBasicAuthMethod \<longrightarrow>
        AuthenticateClient sign parse endpoint mtlsEndpoint cconfig sconfig hc r =
          (r, Returned (endpoint, None)))
   \<and> ((AuthMethod cconfig = ClientSecretJwtAuthMethod
          \<and> sg = SecretSigner (ClientSecret cconfig)
        \<or> AuthMethod cconfig = PrivateKeyJwtAuthMethod \<and> sg = JWKSigner cconfig hc) \<longrightarrow>
        (sign (ClientAssertionClaims sconfig cconfig) sg = (assertion, k, None)
           \<and> Form r = Some f \<longrightarrow>
           AuthenticateClient sign parse endpoint mtlsEndpoint cconfig sconfig hc r =
             (r\<lparr>Key := k,
                Form := Some (f(''client_assertion_type'' \<mapsto> [JwtBearerClientAssertion],
                                ''client_assertion'' \<mapsto> [assertion]))\<rparr>,
              Returned (endpoint, None)))
        \<and> (sign (ClientAssertionClaims sconfig cconfig) sg = (assertion, k, Some e) \<longrightarrow>
             AuthenticateClient sign parse endpoint mtlsEndpoint cconfig sconfig hc r =
               (r\<lparr>Key := k\<rparr>, Returned (endpoint, Some e))))
   \<and> ((AuthMethod cconfig = TLSClientAuthMethod
          \<or> AuthMethod cconfig = SelfSignedTLSAuthMethod) \<and> Form r = Some f \<longrightarrow>
        (Transport hc = HttpTransport (Some cfg) \<and> Certificates cfg = crt # crts
           \<and> Certificate crt = der # ders \<longrightarrow>
           AuthenticateClient sign parse endpoint mtlsEndpoint cconfig sconfig hc r =
             (r\<lparr>Form := Some (f(''client_id'' \<mapsto> [ClientID cconfig])), Cert := parse der\<rparr>,
              Returned (mtlsEndpoint, None)))
        \<and> (Transport hc = HttpTransport (Some cfg) \<and> Certificates cfg = []
             \<or> Transport hc = OtherRoundTripper \<or> Transport hc = NoRoundTripper \<longrightarrow>
             AuthenticateClient sign parse endpoint mtlsEndpoint cconfig sconfig hc r =
               (r\<lparr>Form := Some (f(''client_id'' \<mapsto> [ClientID cconfig]))\<rparr>,
                Returned (mtlsEndpoint, None))))
   \<and> (AuthMethod cconfig \<notin> {ClientSecretPostAuthMethod, ClientSecretJwtAuthMethod,
          PrivateKeyJwtAuthMethod, TLSClientAuthMethod, SelfSignedTLSAuthMethod} \<longrightarrow>
        AuthenticateClient sign parse endpoint mtlsEndpoint cconfig sconfig hc r =
          (r, Returned (endpoint, None)))
   \<and> (r' = fst (AuthenticateClient sign parse endpoint mtlsEndpoint cconfig sconfig hc r) \<longrightarrow>
        Method r' = Method r \<and> URL r' = URL r \<and> Headers r' = Headers r \<and> JARM r' = JARM r
        \<and> (\<forall>key. key \<notin> {''client_id'', ''client_secret'', ''client_assertion_type'',
                            ''client_assertion''} \<longrightarrow>
               map_option (\<lambda>form. form key) (Form r')
                 = map_option (\<lambda>form. form key) (Form r)))
   \<and> distinct [ClientSecretPostAuthMethod, ClientSecretBasicAuthMethod,
        ClientSecretJwtAuthMethod, PrivateKeyJwtAuthMethod, TLSClientAuthMethod,
        SelfSignedTLSAuthMethod]"
  (is "?post \<and> ?basic \<and> ?jwt \<and> ?tls \<and> ?none \<and> ?frame \<and> ?dist")
proof -
  have post: ?post
    by (simp add: AuthenticateClient_def Values_Set_def)
  have basic: ?basic
    by (simp add: AuthenticateClient_def auth_method_neq auth_method_neq [symmetric])
  have jwt: ?jwt
    by (auto simp: AuthenticateClient_def assert_client_def Values_Set_def
          auth_method_neq auth_method_neq [symmetric])
  have tls: ?tls
    by (auto simp: AuthenticateClient_def tls_client_def Values_Set_def
          auth_method_neq auth_method_neq [symmetric])
  have none: ?none
    by (simp add: AuthenticateClient_def)
  have frame: ?frame
    using AuthenticateClient_frame [of sign parse endpoint mtlsEndpoint cconfig sconfig hc r]
    by simp
  show ?thesis
    by (intro conjI post basic jwt tls none frame auth_methods_distinct)
qed

theorem AuthenticateClient_fields_witness:
  "AuthenticateClient example_sign example_parse ''https://idp.example/token''
     ''https://mtls.idp.example/token'' (example_client ClientSecretPostAuthMethod)
     example_server example_hc (zero_Request\<lparr>Form := Some Map.empty\<rparr>)
   = (zero_Request\<lparr>Form := Some [''client_id'' \<mapsto> [''cid''], ''client_secret'' \<mapsto> [''secret'']]\<rparr>,
      Returned (''https://idp.example/token'', None))
   \<and> AuthenticateClient example_sign example_parse ''https://idp.example/token''
       ''https://mtls.idp.example/token'' (example_client ClientSecretJwtAuthMethod)
       example_server example_hc (zero_Request\<lparr>Form := Some Map.empty\<rparr>)
     = (zero_Request\<lparr>Key := Some (KeyMaterial ''secret''),
          Form := Some [''client_assertion_type'' \<mapsto> [JwtBearerClientAssertion],
                        ''client_assertion'' \<mapsto> [''assertion.hs256'']]\<rparr>,
        Returned (''https://idp.example/token'', None))
   \<and> AuthenticateClient example_sign example_parse ''https://idp.example/token''
       ''https://mtls.idp.example/token'' (example_client TLSClientAuthMethod)
       example_server example_hc (zero_Request\<lparr>Form := Some Map.empty\<rparr>)
     = (zero_Request\<lparr>Form := Some [''client_id'' \<mapsto> [''cid'']], Cert := Some (X509 ''CN=cid'')\<rparr>,
        Returned (''https://mtls.idp.example/token'', None))"
proof -
  have f: "Form (zero_Request\<lparr>Form := Some Map.empty\<rparr>) = Some Map.empty" by simp
  have c: "\<And>m. AuthMethod (example_client m) = m" "\<And>m. ClientID (example_client m) = ''cid''"
          "\<And>m. ClientSecret (example_client m) = ''secret''"
    by (simp_all add: example_client_def)
  have s: "example_sign (ClientAssertionClaims example_server
             (example_client ClientSecretJwtAuthMethod)) (SecretSigner ''secret'')
           = (''assertion.hs256'', Some (KeyMaterial ''secret''), None)"
    by (simp add: example_sign_def)
  have t: "Transport example_hc = HttpTransport (Some \<lparr>Certificates = [\<lparr>Certificate = [''leaf'', ''ca'']\<rparr>]\<rparr>)"
          "Certificates \<lparr>Certificates = [\<lparr>Certificate = [''leaf'', ''ca'']\<rparr>]\<rparr>
             = \<lparr>Certificate = [''leaf'', ''ca'']\<rparr> # []"
          "Certificate \<lparr>Certificate = [''leaf'', ''ca'']\<rparr> = ''leaf'' # [''ca'']"
          "example_parse ''leaf'' = Some (X509 ''CN=cid'')"
    by (simp_all add: example_hc_def example_parse_def)
  from AuthenticateClient_fields
         [where cconfig = "example_client ClientSecretPostAuthMethod"
            and r = "zero_Request\<lparr>Form := Some Map.empty\<rparr>" and f = Map.empty
            and sign = example_sign and parse = example_parse
            and endpoint = "''https://idp.example/token''"
            and mtlsEndpoint = "''https://mtls.idp.example/token''"
            and sconfig = example_server and hc = example_hc]
       f c
  have 1: "AuthenticateClient example_sign example_parse ''https://idp.example/token''
     ''https://mtls.idp.example/token'' (example_client ClientSecretPostAuthMethod)
     example_server example_hc (zero_Request\<lparr>Form := Some Map.empty\<rparr>)
   = (zero_Request\<lparr>Form := Some [''client_id'' \<mapsto> [''cid''], ''client_secret'' \<mapsto> [''secret'']]\<rparr>,
      Returned (''https://idp.example/token'', None))"
    by simp
  from AuthenticateClient_fields
         [where cconfig = "example_client ClientSecretJwtAuthMethod"
            and r = "zero_Request\<lparr>Form := Some Map.empty\<rparr>" and f = Map.empty
            and sign = example_sign and parse = example_parse
            and endpoint = "''https://idp.example/token''"
            and mtlsEndpoint = "''https://mtls.idp.example/token''"
            and sconfig = example_server and hc = example_hc
            and sg = "SecretSigner ''secret''" and assertion = "''assertion.hs256''"
            and k = "Some (KeyMaterial ''secret'')"]
       f c s
  have 2: "AuthenticateClient example_sign example_parse ''https://idp.example/token''
       ''https://mtls.idp.example/token'' (example_client ClientSecretJwtAuthMethod)
       example_server example_hc (zero_Request\<lparr>Form := Some Map.empty\<rparr>)
     = (zero_Request\<lparr>Key := Some (KeyMaterial ''secret''),
          Form := Some [''client_assertion_type'' \<mapsto> [JwtBearerClientAssertion],
                        ''client_assertion'' \<mapsto> [''assertion.hs256'']]\<rparr>,
        Returned (''https://idp.example/token'', None))"
    by simp
  from AuthenticateClient_fields
         [where cconfig = "example_client TLSClientAuthMethod"
            and r = "zero_Request\<lparr>Form := Some Map.empty\<rparr>" and f = Map.empty
            and sign = example_sign and parse = example_parse
            and endpoint = "''https://idp.example/token''"
            and mtlsEndpoint = "''https://mtls.idp.example/token''"
            and sconfig = example_server and hc = example_hc
            and cfg = "\<lparr>Certificates = [\<lparr>Certificate = [''leaf'', ''ca'']\<rparr>]\<rparr>"
            and crt = "\<lparr>Certificate = [''leaf'', ''ca'']\<rparr>" and crts = "[]"
            and der = "''leaf''" and ders = "[''ca'']"]
       f c t
  have 3: "AuthenticateClient example_sign example_parse ''https://idp.example/token''
       ''https://mtls.idp.example/token'' (example_client TLSClientAuthMethod)
       example_server example_hc (zero_Request\<lparr>Form := Some Map.empty\<rparr>)
     = (zero_Request\<lparr>Form := Some [''client_id'' \<mapsto> [''cid'']], Cert := Some (X509 ''CN=cid'')\<rparr>,
        Returned (''https://mtls.idp.example/token'', None))"
    by simp
  from 1 2 3 show ?thesis by simp
qed

section \<open>RequestToken: theorems\<close>

lemma token_Form_fields:
  "token_Form cconfig params =
     (\<lambda>key. if key = ''code'' \<and> Code params \<noteq> [] then Some [Code params]
            else if key = ''redirect_uri'' \<and> RedirectURL params \<noteq> [] then Some [RedirectURL params]
            else if key = ''client_secret'' \<and> AuthMethod cconfig = ClientSecretPostAuthMethod
              then Some [ClientSecret cconfig]
            else if key = ''client_id'' \<and> AuthMethod cconfig = ClientSecretPostAuthMethod
              then Some [ClientID cconfig]
            else if key = ''grant_type'' then Some [GrantType cconfig]
            else None)"
  by (rule ext) (simp add: token_Form_def Values_Set_def Let_def)

lemma Values_Encode_token_Form:
  "Values_Encode (token_Form cconfig params) = token_Form cconfig params"
  by (rule ext) (simp add: Values_Encode_def token_Form_fields)

lemma RequestToken_request:
  "fst (RequestToken W cconfig sconfig opts) =
     (let form = token_Form cconfig (apply_options opts) in
      case token_request W cconfig sconfig form of
        Inl e \<Rightarrow> zero_Request\<lparr>Form := Some form\<rparr>
      | Inr req \<Rightarrow> zero_Request\<lparr>Form := Some form, Method := http_Method req,
                      Headers := Some (http_Header req), URL := Some (http_URL req)\<rparr>)"
  by (simp add: RequestToken_def Let_def split: sum.splits prod.splits option.splits)

lemma example_token_request:
  "token_request example_world (example_client m) example_server
     (token_Form (example_client m) params)
   = Inr (Header_Add ''Content-Type'' ''application/x-www-form-urlencoded''
            (if m = ClientSecretBasicAuthMethod
             then SetBasicAuth example_world ''cid'' ''secret''
                    \<lparr>http_Method = ''POST'',
                     http_URL = \<lparr>Scheme = ''https'', Host = ''idp.example'', Path = ''/token'',
                                 RawQuery = Map.empty\<rparr>,
                     http_Header = Map.empty, http_Body = token_Form (example_client m) params\<rparr>
             else \<lparr>http_Method = ''POST'',
                   http_URL = \<lparr>Scheme = ''https'', Host = ''idp.example'', Path = ''/token'',
                               RawQuery = Map.empty\<rparr>,
                   http_Header = Map.empty, http_Body = token_Form (example_client m) params\<rparr>))"
  by (simp add: token_request_def NewRequest_def Values_Encode_token_Form example_world_def
        example_server_def example_client_def)

text \<open>
  Claim C1, as amended. \<^verbatim>\<open>RequestToken\<close> does not call \<^verbatim>\<open>AuthenticateClient\<close>; it
  builds the form itself. For every ClientConfig, ServerConfig and options, the form of the
  token request holds \<^verbatim>\<open>grant_type\<close> (from the ClientConfig), \<^verbatim>\<open>redirect_uri\<close> and
  \<^verbatim>\<open>code\<close> when the options give them, \<^verbatim>\<open>client_id\<close> and \<^verbatim>\<open>client_secret\<close> exactly
  when the method is \<^verbatim>\<open>client_secret_post\<close>, and no other field. When the token endpoint
  parses, the POST is issued to the token endpoint, for every method, with this form as its
  body and the form content type, and HTTP Basic credentials are set on it exactly when the
  method is \<^verbatim>\<open>client_secret_basic\<close>. For every method other than the two JWT and the two
  TLS methods, the form and the endpoint are those \<^verbatim>\<open>AuthenticateClient\<close> produces from
  the form without the client fields.
\<close>

theorem RequestToken_builds_request:
  assumes "params = apply_options opts"
      and "request = fst (RequestToken W cconfig sconfig opts)"
  shows
    "(\<exists>form. Form request = Some form
        \<and> form ''grant_type'' = Some [GrantType cconfig]
        \<and> form ''redirect_uri''
            = (if RedirectURL params \<noteq> [] then Some [RedirectURL params] else None)
        \<and> form ''code'' = (if Code params \<noteq> [] then Some [Code params] else None)
        \<and> form ''client_id''
            = (if AuthMethod cconfig = ClientSecretPostAuthMethod then Some [ClientID cconfig]
               else None)
        \<and> form ''client_secret''
            = (if AuthMethod cconfig = ClientSecretPostAuthMethod then Some [ClientSecret cconfig]
               else None)
        \<and> dom form \<subseteq> {''grant_type'', ''redirect_uri'', ''code'', ''client_id'', ''client_secret''}
        \<and> (url_Parse W (TokenEndpoint sconfig) = Inr u \<longrightarrow>
             (\<exists>req. token_request W cconfig sconfig form = Inr req
                \<and> http_Method req = ''POST'' \<and> http_URL req = u \<and> http_Body req = form
                \<and> http_Header req ''Content-Type'' = Some [''application/x-www-form-urlencoded'']
                \<and> http_Header req ''Authorization''
                    = (if AuthMethod cconfig = ClientSecretBasicAuthMethod
                       then Some [''Basic '' @ base64 W (ClientID cconfig @ '':'' @ ClientSecret cconfig)]
                       else None)
                \<and> Method request = ''POST'' \<and> URL request = Some u
                \<and> Headers request = Some (http_Header req)))
        \<and> (AuthMethod cconfig \<notin> {ClientSecretJwtAuthMethod, PrivateKeyJwtAuthMethod,
               TLSClientAuthMethod, SelfSignedTLSAuthMethod} \<longrightarrow>
             AuthenticateClient sign parse (TokenEndpoint sconfig) mtlsEndpoint cconfig sconfig hc
               (zero_Request\<lparr>Form := Some (form(''client_id'' := None, ''client_secret'' := None))\<rparr>)
             = (zero_Request\<lparr>Form := Some form\<rparr>, Returned (TokenEndpoint sconfig, None))))"
proof -
  let ?form = "token_Form cconfig params"
  have F: "Form request = Some ?form"
    unfolding assms by (simp add: RequestToken_request Let_def split: sum.splits)
  have fields: "?form ''grant_type'' = Some [GrantType cconfig]
        \<and> ?form ''redirect_uri''
            = (if RedirectURL params \<noteq> [] then Some [RedirectURL params] else None)
        \<and> ?form ''code'' = (if Code params \<noteq> [] then Some [Code params] else None)
        \<and> ?form ''client_id''
            = (if AuthMethod cconfig = ClientSecretPostAuthMethod then Some [ClientID cconfig]
               else None)
        \<and> ?form ''client_secret''
            = (if AuthMethod cconfig = ClientSecretPostAuthMethod then Some [ClientSecret cconfig]
               else None)"
    by (simp add: token_Form_fields)
  have d: "dom ?form \<subseteq> {''grant_type'', ''redirect_uri'', ''code'', ''client_id'', ''client_secret''}"
    by (auto simp: token_Form_fields dom_def split: if_splits)
  have t: "url_Parse W (TokenEndpoint sconfig) = Inr u \<longrightarrow>
             (\<exists>req. token_request W cconfig sconfig ?form = Inr req
                \<and> http_Method req = ''POST'' \<and> http_URL req = u \<and> http_Body req = ?form
                \<and> http_Header req ''Content-Type'' = Some [''application/x-www-form-urlencoded'']
                \<and> http_Header req ''Authorization''
                    = (if AuthMethod cconfig = ClientSecretBasicAuthMethod
                       then Some [''Basic '' @ base64 W (ClientID cconfig @ '':'' @ ClientSecret cconfig)]
                       else None)
                \<and> Method request = ''POST'' \<and> URL request = Some u
                \<and> Headers request = Some (http_Header req))"
    unfolding assms(2)
    by (simp add: RequestToken_request assms(1) [symmetric] Let_def token_request_def
          NewRequest_def Header_Add_def SetBasicAuth_def Values_Encode_token_Form)
  have a: "AuthMethod cconfig \<notin> {ClientSecretJwtAuthMethod, PrivateKeyJwtAuthMethod,
               TLSClientAuthMethod, SelfSignedTLSAuthMethod} \<longrightarrow>
             AuthenticateClient sign parse (TokenEndpoint sconfig) mtlsEndpoint cconfig sconfig hc
               (zero_Request\<lparr>Form := Some (?form(''client_id'' := None, ''client_secret'' := None))\<rparr>)
             = (zero_Request\<lparr>Form := Some ?form\<rparr>, Returned (TokenEndpoint sconfig, None))"
  proof (cases "AuthMethod cconfig = ClientSecretPostAuthMethod")
    case True
    have "(?form(''client_id'' := None, ''client_secret'' := None))
             (''client_id'' \<mapsto> [ClientID cconfig], ''client_secret'' \<mapsto> [ClientSecret cconfig])
          = ?form"
      using True by (auto simp: token_Form_fields fun_eq_iff)
    then show ?thesis
      using True by (simp add: AuthenticateClient_def Values_Set_def)
  next
    case False
    have "?form(''client_id'' := None, ''client_secret'' := None) = ?form"
      using False by (auto simp: token_Form_fields fun_eq_iff)
    then show ?thesis
      using False by (simp add: AuthenticateClient_def)
  qed
  from F fields d t a show ?thesis by blast
qed

theorem RequestToken_builds_request_witness:
  "\<exists>form. Form (fst (RequestToken example_world (example_client ClientSecretBasicAuthMethod)
                       example_server [WithAuthorizationCode ''abc123''])) = Some form
     \<and> form ''grant_type'' = Some [''authorization_code'']
     \<and> form ''code'' = Some [''abc123'']
     \<and> form ''client_id'' = None
     \<and> (\<exists>req. token_request example_world (example_client ClientSecretBasicAuthMethod)
                 example_server form = Inr req
           \<and> Path (http_URL req) = ''/token''
           \<and> http_Header req ''Authorization'' = Some [''Basic b64:cid:secret''])"
proof -
  have p: "\<lparr>Code = ''abc123'', RedirectURL = []\<rparr>
             = apply_options [WithAuthorizationCode ''abc123'']"
    by (simp add: apply_options_def WithAuthorizationCode_def)
  have u: "url_Parse example_world (TokenEndpoint example_server)
             = Inr \<lparr>Scheme = ''https'', Host = ''idp.example'', Path = ''/token'',
                    RawQuery = Map.empty\<rparr>"
    by (simp add: example_world_def example_server_def)
  have c: "AuthMethod (example_client ClientSecretBasicAuthMethod) = ClientSecretBasicAuthMethod"
          "ClientID (example_client ClientSecretBasicAuthMethod) = ''cid''"
          "ClientSecret (example_client ClientSecretBasicAuthMethod) = ''secret''"
          "GrantType (example_client ClientSecretBasicAuthMethod) = ''authorization_code''"
          "ClientSecretBasicAuthMethod \<noteq> ClientSecretPostAuthMethod"
          "base64 example_world ''cid:secret'' = ''b64:cid:secret''"
    by (simp_all add: example_client_def AuthorizationCodeGrantType_def auth_method_defs
          example_world_def)
  from RequestToken_builds_request
         [OF p refl, where W = example_world
            and cconfig = "example_client ClientSecretBasicAuthMethod"
            and sconfig = example_server
            and u = "\<lparr>Scheme = ''https'', Host = ''idp.example'', Path = ''/token'',
                      RawQuery = Map.empty\<rparr>"
            and sign = example_sign and parse = example_parse and hc = example_hc
            and mtlsEndpoint = "''https://mtls.idp.example/token''"]
       u c
  show ?thesis by auto
qed

text \<open>
  Claim C1 as stated fails. The method is \<^verbatim>\<open>tls_client_auth\<close>: \<^verbatim>\<open>AuthenticateClient\<close>
  adds \<^verbatim>\<open>client_id\<close> to the form, stores the certificate and returns the mutual-TLS
  endpoint, whereas the request of \<^verbatim>\<open>RequestToken\<close> has no \<^verbatim>\<open>client_id\<close> and goes to the
  token endpoint.
\<close>

theorem RequestToken_skips_AuthenticateClient:
  "map_option (\<lambda>form. form ''client_id'')
      (Form (fst (RequestToken example_world (example_client TLSClientAuthMethod)
                    example_server []))) = Some None
   \<and> map_option Path
       (URL (fst (RequestToken example_world (example_client TLSClientAuthMethod)
                    example_server []))) = Some ''/token''
   \<and> map_option Host
       (URL (fst (RequestToken example_world (example_client TLSClientAuthMethod)
                    example_server []))) = Some ''idp.example''
   \<and> AuthenticateClient example_sign example_parse (TokenEndpoint example_server)
       ''https://mtls.idp.example/token'' (example_client TLSClientAuthMethod) example_server
       example_hc (zero_Request\<lparr>Form := Some [''grant_type'' \<mapsto> [''authorization_code'']]\<rparr>)
     = (zero_Request\<lparr>Form := Some [''grant_type'' \<mapsto> [''authorization_code''],
                                     ''client_id'' \<mapsto> [''cid'']],
                      Cert := Some (X509 ''CN=cid'')\<rparr>,
        Returned (''https://mtls.idp.example/token'', None))"
proof -
  have m: "TLSClientAuthMethod \<noteq> ClientSecretPostAuthMethod"
          "TLSClientAuthMethod \<noteq> ClientSecretBasicAuthMethod"
          "TLSClientAuthMethod \<noteq> ClientSecretJwtAuthMethod"
          "TLSClientAuthMethod \<noteq> PrivateKeyJwtAuthMethod"
    by (simp_all add: auth_method_defs)
  have c: "AuthMethod (example_client TLSClientAuthMethod) = TLSClientAuthMethod"
          "ClientID (example_client TLSClientAuthMethod) = ''cid''"
    by (simp_all add: example_client_def)
  have 1: "fst (RequestToken example_world (example_client TLSClientAuthMethod) example_server [])
           = zero_Request\<lparr>Form := Some (token_Form (example_client TLSClientAuthMethod)
                                            \<lparr>Code = [], RedirectURL = []\<rparr>),
               Method := ''POST'',
               Headers := Some [''Content-Type'' \<mapsto> [''application/x-www-form-urlencoded'']],
               URL := Some \<lparr>Scheme = ''https'', Host = ''idp.example'', Path = ''/token'',
                            RawQuery = Map.empty\<rparr>\<rparr>"
    by (simp add: RequestToken_request example_token_request m Header_Add_def
          apply_options_def)
  have 2: "token_Form (example_client TLSClientAuthMethod) \<lparr>Code = [], RedirectURL = []\<rparr>
             ''client_id'' = None"
    by (simp add: token_Form_fields c m)
  have 3: "AuthenticateClient example_sign example_parse (TokenEndpoint example_server)
       ''https://mtls.idp.example/token'' (example_client TLSClientAuthMethod) example_server
       example_hc (zero_Request\<lparr>Form := Some [''grant_type'' \<mapsto> [''authorization_code'']]\<rparr>)
     = (zero_Request\<lparr>Form := Some [''grant_type'' \<mapsto> [''authorization_code''],
                                     ''client_id'' \<mapsto> [''cid'']],
                      Cert := Some (X509 ''CN=cid'')\<rparr>,
        Returned (''https://mtls.idp.example/token'', None))"
    by (simp add: AuthenticateClient_def c m tls_client_def example_hc_def example_parse_def
          Values_Set_def)
  from 1 2 3 show ?thesis by simp
qed

text \<open>
  Claim C5. Let the transport request be built and sent. An error of \<^verbatim>\<open>hc.Do\<close> is
  returned as it is. A response whose status is not 200 gives the error of
  \<^verbatim>\<open>ParseError\<close>, which is the provider \<^verbatim>\<open>Error\<close> decoded from the body when the body
  decodes, and leaves every field of the TokenResponse at its zero value. A response with
  status 200 whose body decodes gives the decoded TokenResponse and no error. A response
  with status 200 whose body does not decode gives the decoding failure wrapped as
  \<^verbatim>\<open>failed to parse exchange response\<close>, which no error returned as it is can equal.
\<close>

theorem RequestToken_response:
  assumes "token_request W cconfig sconfig
             (token_Form cconfig (apply_options opts)) = Inr req"
  shows
    "(Do W req = Inl e \<longrightarrow>
        snd (RequestToken W cconfig sconfig opts) = (zero_TokenResponse, Some (External e)))
     \<and> (Do W req = Inr resp \<and> StatusCode resp \<noteq> 200 \<longrightarrow>
          snd (RequestToken W cconfig sconfig opts) = (zero_TokenResponse, Some (ParseError W resp))
          \<and> (Body resp = Inr bs \<and> Unmarshal_Error W bs = (oerr, None) \<longrightarrow>
               ParseError W resp = Provider oerr))
     \<and> (Do W req = Inr resp \<and> StatusCode resp = 200 \<and> Body resp = Inr bs \<longrightarrow>
          (Unmarshal_TokenResponse W bs = (response, None) \<longrightarrow>
             snd (RequestToken W cconfig sconfig opts) = (response, None))
          \<and> (Unmarshal_TokenResponse W bs = (response, Some e) \<longrightarrow>
               snd (RequestToken W cconfig sconfig opts)
                 = (response, Some (Wrapped ''failed to parse exchange response'' (External e)))
               \<and> (\<forall>e'. Wrapped ''failed to parse exchange response'' (External e)
                          \<noteq> External e')))"
  using assms by (simp add: RequestToken_def Let_def ParseError_def)

theorem RequestToken_response_witness:
  "snd (RequestToken example_world (example_client ClientSecretPostAuthMethod) example_server
          [WithAuthorizationCode ''abc123''])
     = (zero_TokenResponse\<lparr>AccessToken := ''T'', TokenType := ''Bearer'', ExpiresIn := 3600\<rparr>,
        None)
   \<and> snd (RequestToken example_world (example_client ClientSecretPostAuthMethod) example_server [])
       = (zero_TokenResponse,
          Some (Provider \<lparr>ErrorCode = ''invalid_grant'', Description = [], Hint = [],
                           TraceID = []\<rparr>))
   \<and> snd (RequestToken example_world (example_client ClientSecretPostAuthMethod) example_server
            [WithAuthorizationCode ''html''])
       = (zero_TokenResponse,
          Some (Wrapped ''failed to parse exchange response'' (External ''invalid character'')))"
proof -
  let ?cc = "example_client ClientSecretPostAuthMethod"
  let ?req = "\<lambda>opts. Header_Add ''Content-Type'' ''application/x-www-form-urlencoded''
       \<lparr>http_Method = ''POST'',
        http_URL = \<lparr>Scheme = ''https'', Host = ''idp.example'', Path = ''/token'',
                    RawQuery = Map.empty\<rparr>,
        http_Header = Map.empty,
        http_Body = token_Form ?cc (apply_options opts)\<rparr>"
  have t: "\<And>opts. token_request example_world ?cc example_server
             (token_Form ?cc (apply_options opts))
           = Inr (?req opts)"
    by (simp add: example_token_request auth_method_neq [symmetric])
  have d: "Do example_world (?req [WithAuthorizationCode ''abc123''])
             = Inr \<lparr>StatusCode = 200, Body = Inr token_json\<rparr>"
          "Do example_world (?req []) = Inr \<lparr>StatusCode = 400, Body = Inr error_json\<rparr>"
          "Do example_world (?req [WithAuthorizationCode ''html''])
             = Inr \<lparr>StatusCode = 200, Body = Inr ''<html>''\<rparr>"
    by (simp_all add: example_world_def Header_Add_def token_Form_fields apply_options_def
          WithAuthorizationCode_def)
  have u: "Unmarshal_TokenResponse example_world token_json
             = (zero_TokenResponse\<lparr>AccessToken := ''T'', TokenType := ''Bearer'',
                                    ExpiresIn := 3600\<rparr>, None)"
          "Unmarshal_TokenResponse example_world ''<html>''
             = (zero_TokenResponse, Some ''invalid character'')"
          "Unmarshal_Error example_world error_json
             = (\<lparr>ErrorCode = ''invalid_grant'', Description = [], Hint = [], TraceID = []\<rparr>,
                None)"
    by (simp_all add: example_world_def token_json_def)
  from RequestToken_response
         [OF t, where opts = "[WithAuthorizationCode ''abc123'']"
            and resp = "\<lparr>StatusCode = 200, Body = Inr token_json\<rparr>" and bs = token_json
            and response = "zero_TokenResponse\<lparr>AccessToken := ''T'', TokenType := ''Bearer'',
                                                ExpiresIn := 3600\<rparr>"]
       d(1) u(1)
  have 1: "snd (RequestToken example_world ?cc example_server [WithAuthorizationCode ''abc123''])
     = (zero_TokenResponse\<lparr>AccessToken := ''T'', TokenType := ''Bearer'', ExpiresIn := 3600\<rparr>,
        None)"
    by simp
  from RequestToken_response
         [OF t, where opts = "[]"
            and resp = "\<lparr>StatusCode = 400, Body = Inr error_json\<rparr>" and bs = error_json
            and oerr = "\<lparr>ErrorCode = ''invalid_grant'', Description = [], Hint = [],
                          TraceID = []\<rparr>"]
       d(2) u(3)
  have 2: "snd (RequestToken example_world ?cc example_server [])
       = (zero_TokenResponse,
          Some (Provider \<lparr>ErrorCode = ''invalid_grant'', Description = [], Hint = [],
                           TraceID = []\<rparr>))"
    by simp
  from RequestToken_response
         [OF t, where opts = "[WithAuthorizationCode ''html'']"
            and resp = "\<lparr>StatusCode = 200, Body = Inr ''<html>''\<rparr>" and bs = "''<html>''"
            and response = zero_TokenResponse and e = "''invalid character''"]
       d(3) u(2)
  have 3: "snd (RequestToken example_world ?cc example_server [WithAuthorizationCode ''html''])
       = (zero_TokenResponse,
          Some (Wrapped ''failed to parse exchange response'' (External ''invalid character'')))"
    by simp
  from 1 2 3 show ?thesis by simp
qed

section \<open>WaitForCallback: theorems\<close>

lemma serve_result:
  "serve qs (rq, e) =
     ((if filter for_callback qs = [] then rq
       else rq\<lparr>Method := http_Method (last (filter for_callback qs)),
                URL := Some (http_URL (last (filter for_callback qs)))\<rparr>,
       if filter carries_error (filter for_callback qs) = [] then e
       else Some (Provider
                    (callback_Error (last (filter carries_error (filter for_callback qs)))))),
      map callback_reply qs)"
proof (induction qs arbitrary: rq e)
  case Nil
  show ?case by simp
next
  case (Cons q qs)
  show ?case
  proof (cases "for_callback q")
    case False
    then show ?thesis by (simp add: Cons.IH)
  next
    case True
    show ?thesis
    proof (cases "carries_error q")
      case True
      with \<open>for_callback q\<close> show ?thesis
        by (simp add: Cons.IH callback_def Let_def)
    next
      case False
      with \<open>for_callback q\<close> show ?thesis
        by (simp add: Cons.IH callback_def Let_def)
    qed
  qed
qed

text \<open>
  Claim C8, as amended. Let \<^verbatim>\<open>/callback\<close> not yet be registered in the process. When
  the server cannot listen, \<^verbatim>\<open>WaitForCallback\<close> returns that error and an empty
  Request; while no request for \<^verbatim>\<open>/callback\<close> arrives it does not return. Otherwise it
  returns once the server has closed, and every request that arrived until then has been
  answered: a request for another path with 404, a request for \<^verbatim>\<open>/callback\<close> with 400
  when its \<^verbatim>\<open>error\<close> query parameter is not empty and with 200 when it is empty or
  absent. The Request returned holds the method and the URL of the last request for
  \<^verbatim>\<open>/callback\<close> and nothing else. The error returned is the \<^verbatim>\<open>Error\<close> built from the
  parameters \<^verbatim>\<open>error\<close>, \<^verbatim>\<open>error_description\<close>, \<^verbatim>\<open>error_hint\<close> and \<^verbatim>\<open>trace_id\<close> of
  the last request for \<^verbatim>\<open>/callback\<close> whose \<^verbatim>\<open>error\<close> parameter is not empty; when there
  is no such request no error is returned.
\<close>

theorem WaitForCallback_callbacks:
  assumes "mux ''/callback'' = None"
  shows
    "(net addr = ListenFailed serr \<longrightarrow>
        WaitForCallback net addr mux
          = (mux(''/callback'' \<mapsto> addr),
             Some (Returned ((zero_Request, Some (External serr)), []))))
     \<and> (net addr = Serves qs \<and> filter for_callback qs = [] \<longrightarrow>
          WaitForCallback net addr mux = (mux(''/callback'' \<mapsto> addr), None))
     \<and> (net addr = Serves qs \<and> cs = filter for_callback qs \<and> cs \<noteq> [] \<longrightarrow>
          WaitForCallback net addr mux
            = (mux(''/callback'' \<mapsto> addr),
               Some (Returned
                 ((zero_Request\<lparr>Method := http_Method (last cs),
                                  URL := Some (http_URL (last cs))\<rparr>,
                   if filter carries_error cs = [] then None
                   else Some (Provider (callback_Error (last (filter carries_error cs))))),
                  map callback_reply qs)))
          \<and> map Status (map callback_reply qs)
              = map (\<lambda>q. if for_callback q then (if carries_error q then 400 else 200)
                         else 404) qs)"
  using assms
  by (auto simp: WaitForCallback_def serve_result)

theorem WaitForCallback_callbacks_witness:
  "WaitForCallback example_net ''127.0.0.1:9877'' Map.empty
     = ([''/callback'' \<mapsto> ''127.0.0.1:9877''],
        Some (Returned
          ((zero_Request\<lparr>Method := ''GET'',
              URL := Some \<lparr>Scheme = [], Host = [], Path = ''/callback'',
                           RawQuery = [''error'' \<mapsto> [''access_denied''],
                                       ''error_description'' \<mapsto> [''D'']]\<rparr>\<rparr>,
            Some (Provider \<lparr>ErrorCode = ''access_denied'', Description = ''D'', Hint = [],
                             TraceID = []\<rparr>)),
           [\<lparr>Status = 400, Written = ''Authorization failed. You may close this browser.''\<rparr>])))
   \<and> WaitForCallback example_net ''127.0.0.1:9876'' Map.empty
       = ([''/callback'' \<mapsto> ''127.0.0.1:9876''],
          Some (Returned
            ((zero_Request\<lparr>Method := ''GET'',
                URL := Some \<lparr>Scheme = [], Host = [], Path = ''/callback'',
                             RawQuery = [''code'' \<mapsto> [''abc123'']]\<rparr>\<rparr>, None),
             [\<lparr>Status = 200,
               Written = ''Authorization succeeded. You may close this browser.''\<rparr>])))"
proof -
  let ?q = "redirect [''error'' \<mapsto> [''access_denied''], ''error_description'' \<mapsto> [''D'']]"
  let ?p = "redirect [''code'' \<mapsto> [''abc123'']]"
  have e: "(Map.empty :: ServeMux) ''/callback'' = None"
    by simp
  have n: "example_net ''127.0.0.1:9877'' = Serves [?q]" "example_net ''127.0.0.1:9876'' = Serves [?p]"
    by (simp_all add: example_net_def)
  have q: "filter for_callback [?q] = [?q]" "filter carries_error [?q] = [?q]"
          "http_Method ?q = ''GET''"
          "http_URL ?q = \<lparr>Scheme = [], Host = [], Path = ''/callback'',
                           RawQuery = [''error'' \<mapsto> [''access_denied''],
                                       ''error_description'' \<mapsto> [''D'']]\<rparr>"
          "callback_Error ?q = \<lparr>ErrorCode = ''access_denied'', Description = ''D'', Hint = [],
                                 TraceID = []\<rparr>"
          "callback_reply ?q
             = \<lparr>Status = 400, Written = ''Authorization failed. You may close this browser.''\<rparr>"
    by (simp_all add: redirect_def URL_Query_def Values_Get_def)
  have p: "filter for_callback [?p] = [?p]" "filter carries_error [?p] = []"
          "http_Method ?p = ''GET''"
          "http_URL ?p = \<lparr>Scheme = [], Host = [], Path = ''/callback'',
                           RawQuery = [''code'' \<mapsto> [''abc123'']]\<rparr>"
          "callback_reply ?p
             = \<lparr>Status = 200,
                Written = ''Authorization succeeded. You may close this browser.''\<rparr>"
    by (simp_all add: redirect_def URL_Query_def Values_Get_def)
  from WaitForCallback_callbacks
         [OF e, where net = example_net and addr = "''127.0.0.1:9877''" and qs = "[?q]"
            and cs = "[?q]"]
       n(1) q
  have 1: "WaitForCallback example_net ''127.0.0.1:9877'' Map.empty
     = ([''/callback'' \<mapsto> ''127.0.0.1:9877''],
        Some (Returned
          ((zero_Request\<lparr>Method := ''GET'',
              URL := Some \<lparr>Scheme = [], Host = [], Path = ''/callback'',
                           RawQuery = [''error'' \<mapsto> [''access_denied''],
                                       ''error_description'' \<mapsto> [''D'']]\<rparr>\<rparr>,
            Some (Provider \<lparr>ErrorCode = ''access_denied'', Description = ''D'', Hint = [],
                             TraceID = []\<rparr>)),
           [\<lparr>Status = 400, Written = ''Authorization failed. You may close this browser.''\<rparr>])))"
    by simp
  from WaitForCallback_callbacks
         [OF e, where net = example_net and addr = "''127.0.0.1:9876''" and qs = "[?p]"
            and cs = "[?p]"]
       n(2) p
  have 2: "WaitForCallback example_net ''127.0.0.1:9876'' Map.empty
       = ([''/callback'' \<mapsto> ''127.0.0.1:9876''],
          Some (Returned
            ((zero_Request\<lparr>Method := ''GET'',
                URL := Some \<lparr>Scheme = [], Host = [], Path = ''/callback'',
                             RawQuery = [''code'' \<mapsto> [''abc123'']]\<rparr>\<rparr>, None),
             [\<lparr>Status = 200,
               Written = ''Authorization succeeded. You may close this browser.''\<rparr>])))"
    by simp
  from 1 2 show ?thesis by (rule conjI)
qed

text \<open>
  Claim C8 as stated fails. Within the second the server stays up after the first
  callback, the browser is redirected twice: first with \<^verbatim>\<open>error=access_denied\<close>, then
  with \<^verbatim>\<open>code=abc123\<close>. The second request carries no \<^verbatim>\<open>error\<close> parameter and is
  answered with 200, yet the call returns the URL of the second request together with the
  error of the first, which the handler never resets.
\<close>

theorem WaitForCallback_keeps_earlier_error:
  "WaitForCallback replayed_net ''127.0.0.1:9876'' Map.empty
     = ([''/callback'' \<mapsto> ''127.0.0.1:9876''],
        Some (Returned
          ((zero_Request\<lparr>Method := ''GET'',
              URL := Some \<lparr>Scheme = [], Host = [], Path = ''/callback'',
                           RawQuery = [''code'' \<mapsto> [''abc123'']]\<rparr>\<rparr>,
            Some (Provider \<lparr>ErrorCode = ''access_denied'', Description = ''D'', Hint = [],
                             TraceID = []\<rparr>)),
           [\<lparr>Status = 400, Written = ''Authorization failed. You may close this browser.''\<rparr>,
            \<lparr>Status = 200,
             Written = ''Authorization succeeded. You may close this browser.''\<rparr>])))"
  by (simp add: WaitForCallback_def replayed_net_def redirect_def callback_def URL_Query_def
        Values_Get_def)

text \<open>
  Claim C2, as amended. Each invocation of \<^verbatim>\<open>WaitForCallback\<close> listens on the address
  it is given, and what it returns depends on what arrives on that address only. Its
  handler, though, is registered under \<^verbatim>\<open>/callback\<close> in the handler table of the
  process: an invocation that finds the pattern free leaves it registered, whatever then
  happens on the network, and an invocation that finds it registered panics without
  listening. So of two invocations one after the other, whatever their addresses, the
  second panics with the duplicate registration.
\<close>

theorem WaitForCallback_shared_mux:
  "(mux ''/callback'' = None \<longrightarrow>
      fst (WaitForCallback net addr mux) = mux(''/callback'' \<mapsto> addr))
   \<and> (mux ''/callback'' \<noteq> None \<longrightarrow>
        WaitForCallback net addr mux = (mux, Some (Panicked (MultipleRegistrations ''/callback''))))
   \<and> snd (WaitForCallback net addr2 (fst (WaitForCallback net addr mux)))
        = Some (Panicked (MultipleRegistrations ''/callback''))
   \<and> (net addr = net2 addr \<longrightarrow> WaitForCallback net addr mux = WaitForCallback net2 addr mux)"
  by (auto simp: WaitForCallback_def Let_def split: option.splits serving.splits)

theorem WaitForCallback_shared_mux_witness:
  "fst (WaitForCallback example_net ''127.0.0.1:9876'' Map.empty)
     = [''/callback'' \<mapsto> ''127.0.0.1:9876'']
   \<and> WaitForCallback example_net ''127.0.0.1:9877'' [''/callback'' \<mapsto> ''127.0.0.1:9876'']
       = ([''/callback'' \<mapsto> ''127.0.0.1:9876''], Some (Panicked (MultipleRegistrations ''/callback'')))"
proof -
  have e: "(Map.empty :: ServeMux) ''/callback'' = None"
    by simp
  have r: "[''/callback'' \<mapsto> ''127.0.0.1:9876''] ''/callback'' \<noteq> (None :: string option)"
    by simp
  have u: "(Map.empty :: ServeMux)(''/callback'' \<mapsto> ''127.0.0.1:9876'')
             = [''/callback'' \<mapsto> ''127.0.0.1:9876'']"
    by simp
  from WaitForCallback_shared_mux
         [where mux = Map.empty and net = example_net and addr = "''127.0.0.1:9876''"] e
  have 1: "fst (WaitForCallback example_net ''127.0.0.1:9876'' Map.empty)
             = [''/callback'' \<mapsto> ''127.0.0.1:9876'']"
    by blast
  from WaitForCallback_shared_mux
         [where mux = "[''/callback'' \<mapsto> ''127.0.0.1:9876'']" and net = example_net
            and addr = "''127.0.0.1:9877''"] r
  have 2: "WaitForCallback example_net ''127.0.0.1:9877'' [''/callback'' \<mapsto> ''127.0.0.1:9876'']
             = ([''/callback'' \<mapsto> ''127.0.0.1:9876''],
                Some (Panicked (MultipleRegistrations ''/callback'')))"
    by blast
  from 1 2 show ?thesis by (rule conjI)
qed

text \<open>
  Claim C2 as stated fails. Two invocations run one after the other on the distinct
  addresses 127.0.0.1:9876 and 127.0.0.1:9877. The first registers its handler in the
  handler table of the process, serves the redirect and returns; the second panics on the
  registration the first has left.
\<close>

theorem WaitForCallback_second_invocation_panics:
  "WaitForCallback example_net ''127.0.0.1:9876'' Map.empty
     = ([''/callback'' \<mapsto> ''127.0.0.1:9876''],
        Some (Returned
          ((zero_Request\<lparr>Method := ''GET'',
              URL := Some \<lparr>Scheme = [], Host = [], Path = ''/callback'',
                           RawQuery = [''code'' \<mapsto> [''abc123'']]\<rparr>\<rparr>, None),
           [\<lparr>Status = 200,
             Written = ''Authorization succeeded. You may close this browser.''\<rparr>])))
   \<and> snd (WaitForCallback example_net ''127.0.0.1:9877''
            (fst (WaitForCallback example_net ''127.0.0.1:9876'' Map.empty)))
       = Some (Panicked (MultipleRegistrations ''/callback''))"
proof -
  have 1: "WaitForCallback example_net ''127.0.0.1:9876'' Map.empty
     = ([''/callback'' \<mapsto> ''127.0.0.1:9876''],
        Some (Returned
          ((zero_Request\<lparr>Method := ''GET'',
              URL := Some \<lparr>Scheme = [], Host = [], Path = ''/callback'',
                           RawQuery = [''code'' \<mapsto> [''abc123'']]\<rparr>\<rparr>, None),
           [\<lparr>Status = 200,
             Written = ''Authorization succeeded. You may close this browser.''\<rparr>])))"
    by (simp add: WaitForCallback_def example_net_def redirect_def callback_def URL_Query_def
          Values_Get_def)
  have 2: "WaitForCallback example_net ''127.0.0.1:9877'' [''/callback'' \<mapsto> ''127.0.0.1:9876'']
             = ([''/callback'' \<mapsto> ''127.0.0.1:9876''],
                Some (Panicked (MultipleRegistrations ''/callback'')))"
    by (simp add: WaitForCallback_def)
  from 1 2 show ?thesis by simp
qed

section \<open>RequestAuthorization: theorems\<close>

lemma RequestAuthorization_draws:
  assumes "parse_url (AuthorizationEndpoint sconfig) = Inr u"
      and "RequestAuthorization parse_url gen addr cconfig sconfig n = ((r, e), n')"
  shows "\<exists>u'. URL r = Some u' \<and> Values_Get (URL_Query u') ''state'' = gen n
           \<and> Values_Get (URL_Query u') ''nonce'' = gen (Suc n) \<and> n' = Suc (Suc n)"
  using assms
  by (auto simp: RequestAuthorization_def shortuuid_New_def Let_def Values_Encode_def
        URL_Query_def Values_Get_def)

text \<open>
  Claim C9. \<^verbatim>\<open>RequestAuthorization\<close> returns an error exactly when the authorization
  endpoint does not parse. When it parses, the call returns a GET request on the parsed
  endpoint whose query holds exactly \<^verbatim>\<open>client_id\<close>, \<^verbatim>\<open>response_type=code\<close>,
  \<^verbatim>\<open>redirect_uri=http://<addr>/callback\<close>, \<^verbatim>\<open>state\<close> and \<^verbatim>\<open>nonce\<close>, the last two
  being the next two identifiers of the generator. Every call draws its own two
  identifiers: with a generator that never hands out an identifier twice, a call and any
  later call with the same inputs differ in \<^verbatim>\<open>state\<close> and in \<^verbatim>\<open>nonce\<close>, and the
  \<^verbatim>\<open>state\<close> of a call differs from its \<^verbatim>\<open>nonce\<close>.
\<close>

theorem RequestAuthorization_request:
  "((\<exists>e. snd (fst (RequestAuthorization parse_url gen addr cconfig sconfig n)) = Some e)
      \<longleftrightarrow> (\<exists>e. parse_url (AuthorizationEndpoint sconfig) = Inl e))
   \<and> (parse_url (AuthorizationEndpoint sconfig) = Inr u \<longrightarrow>
        (\<exists>query. RequestAuthorization parse_url gen addr cconfig sconfig n
             = ((zero_Request\<lparr>URL := Some (u\<lparr>RawQuery := query\<rparr>), Method := ''GET''\<rparr>, None),
                n + 2)
           \<and> query ''client_id'' = Some [ClientID cconfig]
           \<and> query ''response_type'' = Some [''code'']
           \<and> query ''redirect_uri'' = Some [''http://'' @ addr @ ''/callback'']
           \<and> query ''state'' = Some [gen n]
           \<and> query ''nonce'' = Some [gen (Suc n)]
           \<and> dom query = {''client_id'', ''response_type'', ''redirect_uri'', ''state'', ''nonce''}))
   \<and> (inj gen \<and> parse_url (AuthorizationEndpoint sconfig) = Inr u
        \<and> RequestAuthorization parse_url gen addr cconfig sconfig n = ((r1, e1), n1)
        \<and> n1 \<le> m
        \<and> RequestAuthorization parse_url gen addr cconfig sconfig m = ((r2, e2), n2) \<longrightarrow>
        (\<exists>u1 u2. URL r1 = Some u1 \<and> URL r2 = Some u2
           \<and> Values_Get (URL_Query u1) ''state'' \<noteq> Values_Get (URL_Query u2) ''state''
           \<and> Values_Get (URL_Query u1) ''nonce'' \<noteq> Values_Get (URL_Query u2) ''nonce''
           \<and> Values_Get (URL_Query u1) ''state'' \<noteq> Values_Get (URL_Query u1) ''nonce''))"
  (is "?err \<and> ?ok \<and> ?fresh")
proof -
  have err: ?err
    by (cases "parse_url (AuthorizationEndpoint sconfig)")
       (simp_all add: RequestAuthorization_def shortuuid_New_def Let_def)
  have ok: ?ok
    by (auto simp: RequestAuthorization_def shortuuid_New_def Let_def Values_Encode_def dom_def
             split: if_splits)
  have fresh: ?fresh
  proof (intro impI, elim conjE)
    assume g: "inj gen" and p: "parse_url (AuthorizationEndpoint sconfig) = Inr u"
      and c1: "RequestAuthorization parse_url gen addr cconfig sconfig n = ((r1, e1), n1)"
      and le: "n1 \<le> m"
      and c2: "RequestAuthorization parse_url gen addr cconfig sconfig m = ((r2, e2), n2)"
    from RequestAuthorization_draws [OF p c1] obtain u1 where
      u1: "URL r1 = Some u1" "Values_Get (URL_Query u1) ''state'' = gen n"
          "Values_Get (URL_Query u1) ''nonce'' = gen (Suc n)" "n1 = Suc (Suc n)"
      by blast
    from RequestAuthorization_draws [OF p c2] obtain u2 where
      u2: "URL r2 = Some u2" "Values_Get (URL_Query u2) ''state'' = gen m"
          "Values_Get (URL_Query u2) ''nonce'' = gen (Suc m)"
      by blast
    from le u1(4) have "n \<noteq> m" "Suc n \<noteq> Suc m" "n \<noteq> Suc n" by simp_all
    with g have "gen n \<noteq> gen m" "gen (Suc n) \<noteq> gen (Suc m)" "gen n \<noteq> gen (Suc n)"
      by (simp_all add: inj_eq)
    with u1 u2 show "\<exists>u1 u2. URL r1 = Some u1 \<and> URL r2 = Some u2
           \<and> Values_Get (URL_Query u1) ''state'' \<noteq> Values_Get (URL_Query u2) ''state''
           \<and> Values_Get (URL_Query u1) ''nonce'' \<noteq> Values_Get (URL_Query u2) ''nonce''
           \<and> Values_Get (URL_Query u1) ''state'' \<noteq> Values_Get (URL_Query u1) ''nonce''"
      by simp
  qed
  show ?thesis by (intro conjI err ok fresh)
qed

theorem RequestAuthorization_request_witness:
  "(\<exists>u1 u2.
      URL (fst (fst (RequestAuthorization (url_Parse example_world) example_gen
                       ''127.0.0.1:9876'' (example_client ClientSecretBasicAuthMethod)
                       example_server 0))) = Some u1
      \<and> URL (fst (fst (RequestAuthorization (url_Parse example_world) example_gen
                         ''127.0.0.1:9876'' (example_client ClientSecretBasicAuthMethod)
                         example_server 2))) = Some u2
      \<and> Values_Get (URL_Query u1) ''state'' \<noteq> Values_Get (URL_Query u2) ''state''
      \<and> Values_Get (URL_Query u1) ''nonce'' \<noteq> Values_Get (URL_Query u2) ''nonce''
      \<and> Values_Get (URL_Query u1) ''state'' \<noteq> Values_Get (URL_Query u1) ''nonce'')
   \<and> snd (RequestAuthorization (url_Parse example_world) example_gen ''127.0.0.1:9876''
            (example_client ClientSecretBasicAuthMethod) example_server 0) = 2"
proof -
  let ?RA = "RequestAuthorization (url_Parse example_world) example_gen ''127.0.0.1:9876''
               (example_client ClientSecretBasicAuthMethod) example_server"
  have g: "inj example_gen"
    by (simp add: inj_def example_gen_def)
  have p: "url_Parse example_world (AuthorizationEndpoint example_server)
             = Inr \<lparr>Scheme = ''https'', Host = ''idp.example'', Path = ''/authorize'',
                    RawQuery = Map.empty\<rparr>"
    by (simp add: example_world_def example_server_def)
  have n: "snd (?RA 0) = 2"
    by (simp add: RequestAuthorization_def p shortuuid_New_def)
  have c1: "?RA 0 = ((fst (fst (?RA 0)), snd (fst (?RA 0))), snd (?RA 0))" by simp
  have c2: "?RA 2 = ((fst (fst (?RA 2)), snd (fst (?RA 2))), snd (?RA 2))" by simp
  have le: "snd (?RA 0) \<le> 2" using n by simp
  from RequestAuthorization_request
         [where parse_url = "url_Parse example_world" and gen = example_gen
            and sconfig = example_server and n = 0 and m = 2
            and addr = "''127.0.0.1:9876''"
            and cconfig = "example_client ClientSecretBasicAuthMethod"
            and ?r1.0 = "fst (fst (?RA 0))" and ?e1.0 = "snd (fst (?RA 0))"
            and ?n1.0 = "snd (?RA 0)"
            and ?r2.0 = "fst (fst (?RA 2))" and ?e2.0 = "snd (fst (?RA 2))"
            and ?n2.0 = "snd (?RA 2)"
            and u = "\<lparr>Scheme = ''https'', Host = ''idp.example'', Path = ''/authorize'',
                      RawQuery = Map.empty\<rparr>"]
       g p c1 c2 le n
  show ?thesis by blast
qed

end
